theory Spec2Isabelle
  imports Main "HOL-Library.Word" "HOL-Library.Signed_Division"
begin

unbundle bit_operations_syntax

section \<open>Data model of the regulator core (regulator.h, regulator.c)\<close>

text \<open>
  The target is a 32-bit Cortex-M3: \<open>int\<close> and \<open>unsigned int\<close> are 32 bits wide.
  Every C integer is a machine word; whether it is read as signed or unsigned is decided
  by the operation (\<open><s\<close>, \<open>scast\<close>, \<open>signed_drop_bit\<close> for signed; \<open><\<close>, \<open>ucast\<close>,
  \<open>drop_bit\<close>, \<open>div\<close> for unsigned), as the C type of the operands decides it in the source.
  Conversions to a narrower or signed type, and signed arithmetic that leaves the range,
  wrap modulo the width, which is what gcc does on this target.
\<close>

type_synonym uint16 = "16 word"
type_synonym uint32 = "32 word"
type_synonym int32 = "32 word"
type_synonym int64 = "64 word"
type_synonym uint64 = "64 word"
type_synonym fixed32_t = "32 word"
type_synonym fract32_t = "32 word"

datatype feedback_mode = DISABLED | CONST_DUTY | CURRENT_FB | VOLTAGE_FB | MAX_POWER

datatype ch2_source_t = BATTERY | INPUT

record feedback_gains =
  prop_gain1 :: fixed32_t
  prop_gain2 :: fixed32_t

text \<open>
  \<open>struct regulator_t\<close>. The four function pointers of the struct are set once, in the
  static initialisers of \<open>chan1\<close> and \<open>chan2\<close>, and never written again; they are
  modelled by the channel identifier that selects the callee (see \<open>enable_func\<close>,
  \<open>configure_func\<close>, \<open>disable_func\<close>, \<open>update_duty_func\<close> below).
\<close>

record regulator_t =
  vsense_gain :: uint32
  isense_gain :: uint32
  period :: uint32
  duty1 :: fract32_t
  duty2 :: fract32_t
  isense :: uint16
  vsense :: uint16
  mode :: feedback_mode
  isetpoint :: uint16
  vlimit :: uint16
  vsetpoint :: uint16
  ilimit :: uint16
  i_gains :: feedback_gains
  v_gains :: feedback_gains
  i1_prop_gain :: fixed32_t
  i2_prop_gain :: fixed32_t

text \<open>
  The static initialisers. The gains are compile-time floating-point expressions
  converted to \<open>uint32_t\<close>:
  \<open>(1<<12) / 3.3 * 33/(33+68) = 405.54..\<close>, \<open>(1<<12) / (3.3 / 0.05 / 10) = 620.60..\<close>
  and \<open>(1<<12) / (3.3 / 0.05 / 47) = 2916.84..\<close>; \<open>2000000 / 5000 = 400\<close>.
  Fields without an initialiser are zero.
\<close>

definition default_gains :: feedback_gains where
  "default_gains = \<lparr>prop_gain1 = 0x10000, prop_gain2 = 0x10000\<rparr>"

definition chan1_init :: regulator_t where
  "chan1_init = \<lparr>vsense_gain = 405, isense_gain = 620, period = 400,
     duty1 = 0, duty2 = 0, isense = 0, vsense = 0, mode = DISABLED,
     isetpoint = 0, vlimit = 0xffff, vsetpoint = 0, ilimit = 0xffff,
     i_gains = default_gains, v_gains = default_gains,
     i1_prop_gain = 0, i2_prop_gain = 0\<rparr>"

definition chan2_init :: regulator_t where
  "chan2_init = \<lparr>vsense_gain = 405, isense_gain = 2916, period = 400,
     duty1 = 0, duty2 = 0, isense = 0, vsense = 0, mode = DISABLED,
     isetpoint = 0, vlimit = 0xffff, vsetpoint = 0, ilimit = 0xffff,
     i_gains = default_gains, v_gains = default_gains,
     i1_prop_gain = 0, i2_prop_gain = 0\<rparr>"

section \<open>The peripheral driver interface\<close>

text \<open>
  The timers, the ADC, the clock tree and the GPIO port are driven through libopencm3,
  which is not part of the regulator core. Every driver call the core makes is recorded,
  in order, with the arguments that vary; arguments that are the same constant at every
  call site (\<open>ADC1\<close>, \<open>GPIOA\<close>, \<open>GPIO5\<close>, \<open>HSI\<close>, the center-aligned counting mode, ...)
  are part of the constructor. Only the timers and output-compare units the core uses
  are listed.
\<close>

datatype timer = TIM2 | TIM3 | TIM4 | TIM7

datatype tim_oc_id = TIM_OC1 | TIM_OC3

datatype tim_oc_mode = TIM_OCM_PWM1 | TIM_OCM_PWM2

datatype tim_master_mode = TIM_CR2_MMS_UPDATE | TIM_CR2_MMS_ENABLE

datatype tim_slave_trigger = TIM_SMCR_TS_ITR1

datatype clock_enable = RCC_APB1ENR_TIM2EN | RCC_APB1ENR_TIM3EN | RCC_APB1ENR_TIM4EN
  | RCC_APB1ENR_TIM7EN | RCC_APB2ENR_ADC1EN

datatype timer_call =
    Reset
  | Continuous_mode
  | Set_prescaler uint32
  | Set_period uint32
  | Set_master_mode tim_master_mode
  | Enable_counter
  | Disable_counter
  | Set_oc_mode tim_oc_id tim_oc_mode
  | Set_oc_value tim_oc_id uint32
  | Enable_oc_preload tim_oc_id
  | Enable_oc_output tim_oc_id
  | Disable_oc_output tim_oc_id
  | Set_mode_center_3
  | Enable_preload
  | Generate_event_ug
  | Slave_set_mode_gated
  | Slave_set_trigger tim_slave_trigger

datatype adc_call =
    Adc_off
  | Adc_enable_external_trigger_injected
  | Adc_set_sample_time_on_all_channels
  | Adc_enable_eoc_interrupt_injected
  | Adc_set_clk_prescale
  | Adc_set_injected_sequence
  | Adc_enable_scan_mode
  | Adc_power_on
  | Adc_clear_jeoc

datatype hw_call =
    Timer timer timer_call
  | Adc adc_call
  | Gpio_set
  | Gpio_clear
  | Rcc_peripheral_enable_clock clock_enable
  | Rcc_peripheral_disable_clock clock_enable
  | Rcc_osc_on
  | Rcc_osc_off
  | Nvic_enable_irq

text \<open>
  The state of the peripherals as the core sees it: the driver calls made so far, and
  what the hardware will answer to the status-flag tests still to come. \<open>flags h k\<close> is
  the outcome of the \<open>k\<close>-th test of a status bit (\<open>RCC_APB2ENR & RCC_APB2ENR_ADC1EN\<close>,
  \<open>ADC1_SR & ADC_SR_ADONS\<close>, \<open>ADC1_SR & ADC_SR_JCNR\<close>, the oscillator-ready bit);
  it is arbitrary, so nothing is assumed about how the hardware behaves.
\<close>

record hw_state =
  calls :: "hw_call list"
  flags :: "nat \<Rightarrow> bool"
  polls :: nat

definition emit :: "hw_call list \<Rightarrow> hw_state \<Rightarrow> hw_state" where
  "emit cs h = h\<lparr>calls := calls h @ cs\<rparr>"

definition read_flag :: "hw_state \<Rightarrow> bool \<times> hw_state" where
  "read_flag h = (flags h (polls h), h\<lparr>polls := Suc (polls h)\<rparr>)"

text \<open>
  The busy-wait loops \<open>while (!(flag));\<close> (\<open>wait_until True\<close>) and \<open>while (flag);\<close>
  (\<open>wait_until False\<close>): the loop tests the status bit until it has the value awaited.
  A loop that never sees that value does not return: the result is \<open>None\<close>.
\<close>

partial_function (option) wait_until :: "bool \<Rightarrow> hw_state \<Rightarrow> hw_state option" where
  "wait_until b h =
     (case read_flag h of (v, h') \<Rightarrow> if v = b then Some h' else wait_until b h')"

text \<open>
  The whole state of the core: the two statically allocated channels, the
  output-compare unit selected for channel 2 (\<open>static enum tim_oc_id ch2_oc = TIM_OC3\<close>)
  and the peripherals. A \<open>struct regulator_t *\<close> argument is always \<open>&chan1\<close> or
  \<open>&chan2\<close> (the struct is opaque outside regulator.c): it is a \<open>chan_id\<close>.
\<close>

record sys =
  chan1 :: regulator_t
  chan2 :: regulator_t
  ch2_oc :: tim_oc_id
  hw :: hw_state

datatype chan_id = Chan1 | Chan2

definition chan :: "chan_id \<Rightarrow> sys \<Rightarrow> regulator_t" where
  "chan c s = (case c of Chan1 \<Rightarrow> chan1 s | Chan2 \<Rightarrow> chan2 s)"

definition chan_put :: "chan_id \<Rightarrow> regulator_t \<Rightarrow> sys \<Rightarrow> sys" where
  "chan_put c reg s = (case c of Chan1 \<Rightarrow> s\<lparr>chan1 := reg\<rparr> | Chan2 \<Rightarrow> s\<lparr>chan2 := reg\<rparr>)"

definition boot :: "hw_state \<Rightarrow> sys" where
  "boot h = \<lparr>chan1 = chan1_init, chan2 = chan2_init, ch2_oc = TIM_OC3, hw = h\<rparr>"

text \<open>
  A call that can end in the fatal halt \<open>while (1);\<close> either returns (\<open>Done\<close>) or stops
  the core for good (\<open>Halted\<close>), in both cases in the state reached so far.
\<close>

datatype 'a outcome = Done 'a | Halted 'a

fun state_of :: "'a outcome \<Rightarrow> 'a" where
  "state_of (Done s) = s"
| "state_of (Halted s) = s"

section \<open>PWM synthesis\<close>

definition setup_common_peripherals :: "sys \<Rightarrow> sys option" where
  "setup_common_peripherals s =
     (if mode (chan1 s) = DISABLED \<and> mode (chan2 s) = DISABLED then
        (case read_flag (hw s) of (adc1en, h1) \<Rightarrow>
           Some (s\<lparr>hw := emit [Rcc_peripheral_disable_clock RCC_APB1ENR_TIM7EN,
                               Rcc_peripheral_disable_clock RCC_APB2ENR_ADC1EN,
                               Rcc_osc_off]
                          (if adc1en then emit [Adc Adc_off] h1 else h1)\<rparr>))
      else
        (case wait_until True (emit [Rcc_osc_on] (hw s)) of
           None \<Rightarrow> None
         | Some h1 \<Rightarrow>
        (case wait_until True
                (emit [Rcc_peripheral_enable_clock RCC_APB1ENR_TIM7EN,
                       Rcc_peripheral_enable_clock RCC_APB2ENR_ADC1EN,
                       Nvic_enable_irq,
                       Adc Adc_enable_external_trigger_injected,
                       Adc Adc_set_sample_time_on_all_channels,
                       Adc Adc_enable_eoc_interrupt_injected,
                       Adc Adc_set_clk_prescale,
                       Adc Adc_set_injected_sequence,
                       Adc Adc_enable_scan_mode,
                       Adc Adc_power_on] h1) of
           None \<Rightarrow> None
         | Some h2 \<Rightarrow>
        (case wait_until False h2 of
           None \<Rightarrow> None
         | Some h3 \<Rightarrow>
           Some (s\<lparr>hw := emit [Timer TIM7 Reset,
                               Timer TIM7 Continuous_mode,
                               Timer TIM7 (Set_prescaler 0x1),
                               Timer TIM7 (Set_period (2097000 div 1000)),
                               Timer TIM7 (Set_master_mode TIM_CR2_MMS_UPDATE),
                               Timer TIM7 Enable_counter] h3\<rparr>)))))"

text \<open>
  \<open>uint32_t t = ((uint64_t) d * period) >> 16; if (t > 0xffff) while (1);\<close>
  The signed \<open>d\<close> is sign-extended to 64 bits, the product wraps modulo \<open>2^64\<close>, and
  the shifted value is cut to the 32 bits of \<open>t\<close>.
\<close>

definition set_pwm_duty ::
  "timer \<Rightarrow> tim_oc_id \<Rightarrow> uint32 \<Rightarrow> fract32_t \<Rightarrow> hw_state \<Rightarrow> hw_state outcome" where
  "set_pwm_duty tim oc per d h =
     (let t = (ucast (drop_bit 16 ((scast d :: uint64) * ucast per)) :: uint32)
      in if 0xffff < t then Halted h
         else Done (emit [Timer tim (Set_oc_value oc t)] h))"

definition configure_pwm ::
  "timer \<Rightarrow> tim_oc_id \<Rightarrow> uint32 \<Rightarrow> bool \<Rightarrow> uint16 \<Rightarrow> hw_state \<Rightarrow> int32 \<times> hw_state" where
  "configure_pwm tim oc per pol t h =
     (0, emit [Timer tim Reset,
               Timer tim Continuous_mode,
               Timer tim (Set_oc_mode oc (if pol then TIM_OCM_PWM1 else TIM_OCM_PWM2)),
               Timer tim (Set_oc_value oc (ucast t)),
               Timer tim (Enable_oc_preload oc),
               Timer tim (Enable_oc_output oc),
               Timer tim Set_mode_center_3,
               Timer tim Enable_preload,
               Timer tim (Set_period per),
               Timer tim Generate_event_ug] h)"

text \<open>The results of the two calls of \<open>configure_pwm\<close> are not looked at.\<close>

definition configure_dual_pwm ::
  "timer \<Rightarrow> tim_oc_id \<Rightarrow> timer \<Rightarrow> tim_oc_id \<Rightarrow> tim_slave_trigger \<Rightarrow> uint32 \<Rightarrow> uint16 \<Rightarrow> uint16
     \<Rightarrow> uint32 \<Rightarrow> hw_state \<Rightarrow> int32 \<times> hw_state" where
  "configure_dual_pwm timer_a oc_a timer_b oc_b slave_trigger_src per ta tb dt h =
     (let h1 = snd (configure_pwm timer_a oc_a per True ta h);
          h2 = snd (configure_pwm timer_b oc_b per True tb h1)
      in (0, emit [Timer timer_a (Set_master_mode TIM_CR2_MMS_ENABLE),
                   Timer timer_b Slave_set_mode_gated,
                   Timer timer_b (Slave_set_trigger slave_trigger_src),
                   Timer timer_a (Set_period (per - dt)),
                   Timer timer_a Generate_event_ug,
                   Timer timer_a (Set_period per)] h2))"

section \<open>The duty-mixing algorithm\<close>

text \<open>\<open>const int32_t fudge = 2000;\<close>\<close>

definition fudge :: int32 where
  "fudge = 2000"

text \<open>
  The correction term \<open>((int64_t) error * gain) >> 16\<close>: both operands are sign-extended
  to 64 bits, the product cannot overflow, and the shift of a signed value is arithmetic.
\<close>

definition prop_term :: "int32 \<Rightarrow> fixed32_t \<Rightarrow> int64" where
  "prop_term error gain = signed_drop_bit 16 (scast error * scast gain)"

text \<open>
  \<open>reg->duty -= term\<close> and \<open>reg->duty += term\<close> with an \<open>int\<close> on the left and an
  \<open>int64_t\<close> on the right: the arithmetic is done in 64 bits and the result is converted
  back to \<open>int\<close>, keeping the low 32 bits.
\<close>

definition duty_sub :: "fract32_t \<Rightarrow> int64 \<Rightarrow> fract32_t" where
  "duty_sub d t = ucast ((scast d :: int64) - t)"

definition duty_add :: "fract32_t \<Rightarrow> int64 \<Rightarrow> fract32_t" where
  "duty_add d t = ucast ((scast d :: int64) + t)"

definition regulator_feedback_error ::
  "regulator_t \<Rightarrow> feedback_gains \<Rightarrow> int32 \<Rightarrow> regulator_t" where
  "regulator_feedback_error reg gains error =
     (let reg1 =
        (if error <s 0 \<and> 0xffff - fudge <s duty1 reg \<and> 0xffff - fudge <s duty2 reg then
           reg\<lparr>duty1 := 0xffff div 2, duty2 := 0xffff div 2\<rparr>
         else if error <s 0 \<and> 0xffff - fudge <s duty1 reg then
           reg\<lparr>duty2 := duty_sub (duty2 reg) (prop_term error (prop_gain2 gains))\<rparr>
         else if 0 <s error \<and> duty1 reg <s fudge then
           reg\<lparr>duty2 := duty_sub (duty2 reg) (prop_term error (prop_gain2 gains))\<rparr>
         else if error <s 0 \<and> fudge <s duty2 reg then
           reg\<lparr>duty2 := duty_add (duty2 reg) (prop_term error (prop_gain2 gains))\<rparr>
         else
           reg\<lparr>duty1 := duty_sub (duty1 reg) (prop_term error (prop_gain1 gains))\<rparr>)
      in if duty1 reg1 <s duty2 reg1 then reg1\<lparr>duty2 := duty1 reg1\<rparr> else reg1)"

section \<open>The feedback controller\<close>

text \<open>\<open>reg->duty /= 2\<close> on an \<open>int\<close>: C's division truncates towards zero.\<close>

definition halve :: "fract32_t \<Rightarrow> fract32_t" where
  "halve d = word_of_int (sint d sdiv 2)"

text \<open>
  The four clamps at the end of \<open>regulator_feedback\<close>, in the order of the source.
\<close>

definition clamp_duties :: "regulator_t \<Rightarrow> regulator_t" where
  "clamp_duties reg1 =
     (let reg2 = (if duty1 reg1 <s 0x0000 then reg1\<lparr>duty1 := 0\<rparr> else reg1);
          reg3 = (if 0xffff <s duty1 reg2 then reg2\<lparr>duty1 := 0xffff\<rparr> else reg2);
          reg4 = (if duty2 reg3 <s 0x0000 then reg3\<lparr>duty2 := 0\<rparr> else reg3);
          reg5 = (if 0xffff <s duty2 reg4 then reg4\<lparr>duty2 := 0xffff\<rparr> else reg4)
      in reg5)"

text \<open>
  The part of \<open>regulator_feedback\<close> that runs in the modes other than \<open>DISABLED\<close> and
  \<open>CONST_DUTY\<close>, up to the call of \<open>update_duty_func\<close>: the dispatch on the mode, then
  the clamps. \<open>isense\<close>, \<open>ilimit\<close>, \<open>vsense\<close> and \<open>vlimit\<close> are \<open>uint16_t\<close>: they are
  promoted to \<open>int\<close>, so the comparisons are those of the unsigned values and the error
  is the difference of two values below \<open>2^16\<close>. \<open>MAX_POWER\<close> has no branch and goes
  to the clamps directly.
\<close>

definition feedback_step :: "regulator_t \<Rightarrow> regulator_t" where
  "feedback_step reg =
     clamp_duties
       (if mode reg = VOLTAGE_FB then
          (if ilimit reg < isense reg then
             reg\<lparr>duty1 := halve (duty1 reg), duty2 := halve (duty2 reg)\<rparr>
           else
             regulator_feedback_error reg (v_gains reg)
               (ucast (vsense reg) - ucast (vsetpoint reg)))
        else if mode reg = CURRENT_FB then
          (if vlimit reg < vsense reg then
             reg\<lparr>duty1 := halve (duty1 reg), duty2 := halve (duty2 reg)\<rparr>
           else
             regulator_feedback_error reg (i_gains reg)
               (ucast (isense reg) - ucast (isetpoint reg)))
        else reg)"

section \<open>Channel 1\<close>

definition configure_ch1 :: "sys \<Rightarrow> int32 \<times> sys" where
  "configure_ch1 s =
     (let dt = 0x10;
          ta = (ucast (drop_bit 16 ((ucast (period (chan1 s)) :: uint64)
                                      * scast (duty1 (chan1 s)))) :: uint16);
          tb = (ucast (drop_bit 16 ((ucast (period (chan1 s)) :: uint64)
                                      * scast (duty2 (chan1 s)))) :: uint16)
      in case configure_dual_pwm TIM2 TIM_OC3 TIM4 TIM_OC3 TIM_SMCR_TS_ITR1
                (period (chan1 s)) ta tb dt (hw s) of
           (ret, h) \<Rightarrow>
             if ret \<noteq> 0 then (ret, s\<lparr>hw := h\<rparr>)
             else (0, s\<lparr>hw := emit [Timer TIM4 Enable_counter,
                                     Timer TIM2 Enable_counter] h\<rparr>))"

definition set_vsense1_en :: "bool \<Rightarrow> hw_state \<Rightarrow> hw_state" where
  "set_vsense1_en enabled h = (if enabled then emit [Gpio_set] h else emit [Gpio_clear] h)"

definition enable_ch1 :: "sys \<Rightarrow> sys option" where
  "enable_ch1 s =
     setup_common_peripherals
       (s\<lparr>hw := emit [Rcc_peripheral_enable_clock RCC_APB1ENR_TIM2EN,
                      Rcc_peripheral_enable_clock RCC_APB1ENR_TIM4EN]
                 (set_vsense1_en True (hw s))\<rparr>)"

definition disable_ch1 :: "sys \<Rightarrow> sys option" where
  "disable_ch1 s =
     (case setup_common_peripherals
             (s\<lparr>hw := emit [Timer TIM2 (Disable_oc_output TIM_OC3),
                            Timer TIM4 (Disable_oc_output TIM_OC3),
                            Timer TIM2 Disable_counter,
                            Timer TIM4 Disable_counter,
                            Rcc_peripheral_disable_clock RCC_APB1ENR_TIM2EN,
                            Rcc_peripheral_disable_clock RCC_APB1ENR_TIM4EN] (hw s)\<rparr>) of
        None \<Rightarrow> None
      | Some s1 \<Rightarrow> Some (s1\<lparr>hw := set_vsense1_en False (hw s1)\<rparr>))"

definition update_duty_ch1 :: "sys \<Rightarrow> sys outcome" where
  "update_duty_ch1 s =
     (case set_pwm_duty TIM2 TIM_OC3 (period (chan1 s)) (duty1 (chan1 s))
             (emit [Timer TIM2 Disable_counter] (hw s)) of
        Halted h \<Rightarrow> Halted (s\<lparr>hw := h\<rparr>)
      | Done h1 \<Rightarrow>
     (case set_pwm_duty TIM4 TIM_OC3 (period (chan1 s)) (duty2 (chan1 s)) h1 of
        Halted h \<Rightarrow> Halted (s\<lparr>hw := h\<rparr>)
      | Done h2 \<Rightarrow> Done (s\<lparr>hw := emit [Timer TIM2 Enable_counter] h2\<rparr>)))"

section \<open>Channel 2\<close>

text \<open>
  \<open>uint32_t t = chan2.period * chan2.duty1 / 0xffff;\<close> The \<open>int\<close> duty is converted to
  \<open>unsigned\<close>, the product wraps modulo \<open>2^32\<close>, the division is unsigned, and the
  quotient is cut to the \<open>uint16_t\<close> parameter of \<open>configure_pwm\<close>.
\<close>

definition configure_ch2 :: "sys \<Rightarrow> int32 \<times> sys" where
  "configure_ch2 s =
     (let t = (period (chan2 s) * duty1 (chan2 s)) div 0xffff
      in case configure_pwm TIM3 (ch2_oc s) (period (chan2 s)) True (ucast t) (hw s) of
           (ret, h) \<Rightarrow>
             if ret \<noteq> 0 then (ret, s\<lparr>hw := h\<rparr>)
             else (0, s\<lparr>hw := emit [Timer TIM3 Enable_counter] h\<rparr>))"

definition regulator_set_ch2_source :: "ch2_source_t \<Rightarrow> sys \<Rightarrow> int32 \<times> sys" where
  "regulator_set_ch2_source src s =
     (if mode (chan2 s) \<noteq> DISABLED then (- 1, s)
      else
        let s1 = s\<lparr>ch2_oc := (if src = BATTERY then TIM_OC1 else TIM_OC3)\<rparr>;
            s2 = s1\<lparr>hw := emit [Timer TIM3 (Disable_oc_output TIM_OC1),
                                 Timer TIM3 (Disable_oc_output TIM_OC3)] (hw s1)\<rparr>
        in (0, snd (configure_ch2 s2)))"

definition enable_ch2 :: "sys \<Rightarrow> sys option" where
  "enable_ch2 s =
     setup_common_peripherals
       (s\<lparr>hw := emit [Rcc_peripheral_enable_clock RCC_APB1ENR_TIM3EN] (hw s)\<rparr>)"

definition disable_ch2 :: "sys \<Rightarrow> sys option" where
  "disable_ch2 s =
     setup_common_peripherals
       (s\<lparr>hw := emit [Timer TIM3 (Disable_oc_output TIM_OC1),
                      Timer TIM3 (Disable_oc_output TIM_OC3),
                      Timer TIM3 Disable_counter,
                      Rcc_peripheral_disable_clock RCC_APB1ENR_TIM3EN] (hw s)\<rparr>)"

definition update_duty_ch2 :: "sys \<Rightarrow> sys outcome" where
  "update_duty_ch2 s =
     (case set_pwm_duty TIM3 (ch2_oc s) (period (chan2 s)) (duty1 (chan2 s)) (hw s) of
        Halted h \<Rightarrow> Halted (s\<lparr>hw := h\<rparr>)
      | Done h \<Rightarrow> Done (s\<lparr>hw := h\<rparr>))"

section \<open>The function pointers of a channel\<close>

definition enable_func :: "chan_id \<Rightarrow> sys \<Rightarrow> sys option" where
  "enable_func c = (case c of Chan1 \<Rightarrow> enable_ch1 | Chan2 \<Rightarrow> enable_ch2)"

definition configure_func :: "chan_id \<Rightarrow> sys \<Rightarrow> int32 \<times> sys" where
  "configure_func c = (case c of Chan1 \<Rightarrow> configure_ch1 | Chan2 \<Rightarrow> configure_ch2)"

definition disable_func :: "chan_id \<Rightarrow> sys \<Rightarrow> sys option" where
  "disable_func c = (case c of Chan1 \<Rightarrow> disable_ch1 | Chan2 \<Rightarrow> disable_ch2)"

definition update_duty_func :: "chan_id \<Rightarrow> sys \<Rightarrow> sys outcome" where
  "update_duty_func c = (case c of Chan1 \<Rightarrow> update_duty_ch1 | Chan2 \<Rightarrow> update_duty_ch2)"

section \<open>Public interface\<close>

definition regulator_feedback :: "chan_id \<Rightarrow> sys \<Rightarrow> sys outcome" where
  "regulator_feedback c s =
     (if mode (chan c s) = DISABLED then Done s
      else if mode (chan c s) = CONST_DUTY then Done s
      else update_duty_func c (chan_put c (feedback_step (chan c s)) s))"

text \<open>
  The interrupt handler. Its first five statements clear the end-of-conversion flag and
  store the four results of \<open>adc_read_injected\<close>, which are inputs; each is cut to the
  \<open>uint16_t\<close> field it is stored in. Then the feedback of channel 1 runs, then that of
  channel 2; a halt in the first leaves the second undone.
\<close>

definition read_samples :: "uint32 \<Rightarrow> uint32 \<Rightarrow> uint32 \<Rightarrow> uint32 \<Rightarrow> sys \<Rightarrow> sys" where
  "read_samples j1 j2 j3 j4 s =
     s\<lparr>hw := emit [Adc Adc_clear_jeoc] (hw s),
       chan1 := (chan1 s)\<lparr>vsense := ucast j1, isense := ucast j2\<rparr>,
       chan2 := (chan2 s)\<lparr>vsense := ucast j3, isense := ucast j4\<rparr>\<rparr>"

definition adc1_isr :: "uint32 \<Rightarrow> uint32 \<Rightarrow> uint32 \<Rightarrow> uint32 \<Rightarrow> sys \<Rightarrow> sys outcome" where
  "adc1_isr j1 j2 j3 j4 s =
     (case regulator_feedback Chan1 (read_samples j1 j2 j3 j4 s) of
        Halted s1 \<Rightarrow> Halted s1
      | Done s1 \<Rightarrow> regulator_feedback Chan2 s1)"

definition regulator_set_mode :: "chan_id \<Rightarrow> feedback_mode \<Rightarrow> sys \<Rightarrow> (int32 \<times> sys) option" where
  "regulator_set_mode c m s =
     (let old_mode = mode (chan c s);
          s1 = chan_put c ((chan c s)\<lparr>mode := m\<rparr>) s
      in case (if old_mode = DISABLED \<and> m \<noteq> DISABLED then enable_func c s1
               else if m = DISABLED then disable_func c s1
               else Some s1) of
           None \<Rightarrow> None
         | Some s2 \<Rightarrow>
             if m \<noteq> DISABLED then
               (case configure_func c s2 of
                  (ret, s3) \<Rightarrow>
                    if ret \<noteq> 0 then
                      (case disable_func c (chan_put c ((chan c s3)\<lparr>mode := DISABLED\<rparr>) s3) of
                         None \<Rightarrow> None
                       | Some s4 \<Rightarrow> Some (ret, s4))
                    else Some (0, s3))
             else Some (0, s2))"

definition regulator_get_mode :: "chan_id \<Rightarrow> sys \<Rightarrow> feedback_mode" where
  "regulator_get_mode c s = mode (chan c s)"

definition regulator_set_duty_cycle ::
  "chan_id \<Rightarrow> fract32_t \<Rightarrow> fract32_t \<Rightarrow> sys \<Rightarrow> int32 \<times> sys" where
  "regulator_set_duty_cycle c d1 d2 s =
     (if mode (chan c s) \<noteq> CONST_DUTY \<and> mode (chan c s) \<noteq> DISABLED then (1, s)
      else if d1 <s d2 then (2, s)
      else (0, snd (configure_func c (chan_put c ((chan c s)\<lparr>duty1 := d1, duty2 := d2\<rparr>) s))))"

definition regulator_get_duty_cycle_1 :: "chan_id \<Rightarrow> sys \<Rightarrow> fract32_t" where
  "regulator_get_duty_cycle_1 c s = duty1 (chan c s)"

definition regulator_get_duty_cycle_2 :: "chan_id \<Rightarrow> sys \<Rightarrow> fract32_t" where
  "regulator_get_duty_cycle_2 c s = duty2 (chan c s)"

text \<open>
  \<open>uint16_t v = ((uint32_t) (reg->vsense_gain * setpoint) >> 16);\<close> The \<open>int\<close> setpoint
  is converted to \<open>unsigned\<close> and the product wraps modulo \<open>2^32\<close>.
\<close>

definition regulator_set_vsetpoint :: "chan_id \<Rightarrow> fixed32_t \<Rightarrow> sys \<Rightarrow> int32 \<times> sys" where
  "regulator_set_vsetpoint c setpoint s =
     (let v = (ucast (drop_bit 16 (vsense_gain (chan c s) * setpoint)) :: uint16)
      in if vlimit (chan c s) < v then (1, s)
         else (0, chan_put c ((chan c s)\<lparr>vsetpoint := v\<rparr>) s))"

text \<open>
  \<open>(reg->vsetpoint << 16) / reg->vsense_gain\<close>: the \<open>uint16_t\<close> is promoted to \<open>int\<close>
  and shifted, the \<open>int\<close> is converted to \<open>unsigned\<close> for the unsigned division, and the
  quotient is converted to \<open>fixed32_t\<close>. A division by zero is undefined: \<open>None\<close>.
\<close>

definition from_codepoints :: "uint16 \<Rightarrow> uint32 \<Rightarrow> fixed32_t option" where
  "from_codepoints x gain =
     (if gain = 0 then None else Some (push_bit 16 (ucast x :: uint32) div gain))"

definition regulator_get_vsetpoint :: "chan_id \<Rightarrow> sys \<Rightarrow> fixed32_t option" where
  "regulator_get_vsetpoint c s = from_codepoints (vsetpoint (chan c s)) (vsense_gain (chan c s))"

definition regulator_set_isetpoint :: "chan_id \<Rightarrow> fixed32_t \<Rightarrow> sys \<Rightarrow> int32 \<times> sys" where
  "regulator_set_isetpoint c setpoint s =
     (let i = (ucast (drop_bit 16 (isense_gain (chan c s) * setpoint)) :: uint16)
      in if ilimit (chan c s) < i then (1, s)
         else (0, chan_put c ((chan c s)\<lparr>isetpoint := i\<rparr>) s))"

definition regulator_get_isetpoint :: "chan_id \<Rightarrow> sys \<Rightarrow> fixed32_t option" where
  "regulator_get_isetpoint c s = from_codepoints (isetpoint (chan c s)) (isense_gain (chan c s))"

definition regulator_get_vsense :: "chan_id \<Rightarrow> sys \<Rightarrow> fixed32_t option" where
  "regulator_get_vsense c s = from_codepoints (vsense (chan c s)) (vsense_gain (chan c s))"

definition regulator_get_isense :: "chan_id \<Rightarrow> sys \<Rightarrow> fixed32_t option" where
  "regulator_get_isense c s = from_codepoints (isense (chan c s)) (isense_gain (chan c s))"

definition regulator_init :: "sys \<Rightarrow> sys option" where
  "regulator_init s =
     (case regulator_set_mode Chan1 DISABLED s of
        None \<Rightarrow> None
      | Some (r1, s1) \<Rightarrow>
     (case regulator_set_mode Chan2 DISABLED s1 of
        None \<Rightarrow> None
      | Some (r2, s2) \<Rightarrow> Some s2))"

definition regulator_set_period :: "chan_id \<Rightarrow> uint32 \<Rightarrow> sys \<Rightarrow> int32 \<times> sys" where
  "regulator_set_period c per s =
     (if mode (chan c s) \<noteq> DISABLED then (- 1, s)
      else (0, chan_put c ((chan c s)\<lparr>period := per\<rparr>) s))"

definition regulator_get_period :: "chan_id \<Rightarrow> sys \<Rightarrow> uint32" where
  "regulator_get_period c s = period (chan c s)"

section \<open>Reachable states\<close>

text \<open>
  The states the core can be in when a function is entered: the statically initialised
  state, with the peripherals in any state, and every state that a returning call of
  the public interface leads to. The interrupt handler is taken in its steps (the
  samples are stored, then each feedback runs), so that the states in which
  \<open>regulator_feedback\<close> is entered are among them.
\<close>

inductive reachable :: "sys \<Rightarrow> bool" where
  reach_boot: "reachable (boot h)"
| reach_set_mode:
    "reachable s \<Longrightarrow> regulator_set_mode c m s = Some (r, s') \<Longrightarrow> reachable s'"
| reach_set_duty_cycle:
    "reachable s \<Longrightarrow> reachable (snd (regulator_set_duty_cycle c d1 d2 s))"
| reach_set_vsetpoint:
    "reachable s \<Longrightarrow> reachable (snd (regulator_set_vsetpoint c v s))"
| reach_set_isetpoint:
    "reachable s \<Longrightarrow> reachable (snd (regulator_set_isetpoint c v s))"
| reach_set_period:
    "reachable s \<Longrightarrow> reachable (snd (regulator_set_period c per s))"
| reach_set_ch2_source:
    "reachable s \<Longrightarrow> reachable (snd (regulator_set_ch2_source src s))"
| reach_read_samples:
    "reachable s \<Longrightarrow> reachable (read_samples j1 j2 j3 j4 s)"
| reach_feedback:
    "reachable s \<Longrightarrow> regulator_feedback c s = Done s' \<Longrightarrow> reachable s'"

text \<open>
  Hardware that answers: whatever has been polled so far, each status bit will be seen
  set again and seen clear again. Every busy-wait of the core then ends.
\<close>

definition responsive :: "hw_state \<Rightarrow> bool" where
  "responsive h \<longleftrightarrow> (\<forall>n. \<exists>k. flags h (n + k)) \<and> (\<forall>n. \<exists>k. \<not> flags h (n + k))"

section \<open>Concrete states\<close>

text \<open>
  Peripherals whose status bits are seen set and clear in turn, with no driver call made
  yet.
\<close>

definition hw_alternating :: hw_state where
  "hw_alternating = \<lparr>calls = [], flags = even, polls = 0\<rparr>"

text \<open>
  Channel 1 in voltage feedback at 50% duty on switch 1, with the setpoint at codepoint
  2000 and the sensed voltage at codepoint 1800.
\<close>

definition scenario_reg :: regulator_t where
  "scenario_reg = chan1_init\<lparr>mode := VOLTAGE_FB, duty1 := 0x8000, vsetpoint := 2000,
                              vsense := 1800\<rparr>"

text \<open>The same channel with a current limit below the sensed current.\<close>

definition overcurrent_reg :: regulator_t where
  "overcurrent_reg = scenario_reg\<lparr>duty2 := 0x4000, isense := 2000, ilimit := 1000\<rparr>"

text \<open>
  A state reached through the public interface: after start-up the duties of channel 1
  are set to 50% and 25%, the voltage setpoint to 5.0, the mode to voltage feedback, and
  the interrupt handler has stored its samples.
\<close>

definition sys_const_duty :: sys where
  "sys_const_duty =
     snd (regulator_set_vsetpoint Chan1 0x50000
       (snd (regulator_set_duty_cycle Chan1 0x8000 0x4000 (boot hw_alternating))))"

definition sys_voltage_fb :: sys where
  "sys_voltage_fb =
     read_samples 1800 0 0 0 (snd (the (regulator_set_mode Chan1 VOLTAGE_FB sys_const_duty)))"

section \<open>Channels and peripherals are separate\<close>

lemma chan_chan_put [simp]: "chan c (chan_put c r s) = r"
  by (cases c) (simp_all add: chan_def chan_put_def)

lemma chan_chan_put_other [simp]: "c' \<noteq> c \<Longrightarrow> chan c' (chan_put c r s) = chan c' s"
  by (cases c; cases c') (simp_all add: chan_def chan_put_def)

lemma hw_chan_put [simp]: "hw (chan_put c r s) = hw s"
  by (cases c) (simp_all add: chan_put_def)

lemma chan_hw_update [simp]: "chan c (s\<lparr>hw := h\<rparr>) = chan c s"
  by (cases c) (simp_all add: chan_def)

lemma update_duty_func_chan [simp]:
  "chan c' (state_of (update_duty_func c s)) = chan c' s"
  by (cases c)
     (simp_all add: update_duty_func_def update_duty_ch1_def update_duty_ch2_def
        split: outcome.splits)

lemma regulator_feedback_chan:
  "chan c (state_of (regulator_feedback c s)) =
     (if mode (chan c s) = DISABLED \<or> mode (chan c s) = CONST_DUTY then chan c s
      else feedback_step (chan c s))"
  by (simp add: regulator_feedback_def)

lemma regulator_feedback_chan_other:
  "c' \<noteq> c \<Longrightarrow> chan c' (state_of (regulator_feedback c s)) = chan c' s"
  by (simp add: regulator_feedback_def)

lemma setup_common_peripherals_chan:
  "setup_common_peripherals s = Some s' \<Longrightarrow> chan c s' = chan c s"
  by (auto simp: setup_common_peripherals_def split: if_splits option.splits prod.splits)

lemma enable_func_chan: "enable_func c s = Some s' \<Longrightarrow> chan c' s' = chan c' s"
  by (cases c)
     (auto simp: enable_func_def enable_ch1_def enable_ch2_def
        dest!: setup_common_peripherals_chan [where c = c'])

lemma disable_func_chan: "disable_func c s = Some s' \<Longrightarrow> chan c' s' = chan c' s"
  by (cases c)
     (auto simp: disable_func_def disable_ch1_def disable_ch2_def split: option.splits
        dest!: setup_common_peripherals_chan [where c = c'])

lemma configure_func_ret: "fst (configure_func c s) = 0"
  by (cases c)
     (simp_all add: configure_func_def configure_ch1_def configure_ch2_def
        configure_dual_pwm_def configure_pwm_def Let_def)

lemma configure_func_chan: "chan c' (snd (configure_func c s)) = chan c' s"
  by (cases c)
     (simp_all add: configure_func_def configure_ch1_def configure_ch2_def
        configure_dual_pwm_def configure_pwm_def Let_def)

lemma configure_ch2_chans:
  "chan1 (snd (configure_ch2 s)) = chan1 s \<and> chan2 (snd (configure_ch2 s)) = chan2 s"
  by (simp add: configure_ch2_def configure_pwm_def Let_def)

lemma regulator_set_mode_chan:
  assumes "regulator_set_mode c m s = Some (r, s')"
  shows "chan c' s' = chan c' (chan_put c ((chan c s)\<lparr>mode := m\<rparr>) s)"
proof -
  let ?s1 = "chan_put c ((chan c s)\<lparr>mode := m\<rparr>) s"
  from assms obtain s2 where
    s2: "(if mode (chan c s) = DISABLED \<and> m \<noteq> DISABLED then enable_func c ?s1
          else if m = DISABLED then disable_func c ?s1 else Some ?s1) = Some s2"
    by (auto simp: regulator_set_mode_def Let_def split: option.splits)
  then have c2: "chan c' s2 = chan c' ?s1"
    by (auto split: if_splits dest: enable_func_chan disable_func_chan)
  have "chan c' s' = chan c' s2"
    using assms s2 configure_func_ret [of c s2] configure_func_chan [of c' c s2]
    by (auto simp: regulator_set_mode_def Let_def split: option.splits if_splits prod.splits)
  with c2 show ?thesis by simp
qed

lemma regulator_set_mode_duties:
  assumes "regulator_set_mode c m s = Some (r, s')"
  shows "duty1 (chan c' s') = duty1 (chan c' s) \<and> duty2 (chan c' s') = duty2 (chan c' s)"
  unfolding regulator_set_mode_chan [OF assms]
  by (cases "c' = c") simp_all

lemma set_vsetpoint_duties:
  "duty1 (chan c' (snd (regulator_set_vsetpoint c v s))) = duty1 (chan c' s)
   \<and> duty2 (chan c' (snd (regulator_set_vsetpoint c v s))) = duty2 (chan c' s)"
  by (cases "c' = c") (simp_all add: regulator_set_vsetpoint_def Let_def)

lemma set_isetpoint_duties:
  "duty1 (chan c' (snd (regulator_set_isetpoint c v s))) = duty1 (chan c' s)
   \<and> duty2 (chan c' (snd (regulator_set_isetpoint c v s))) = duty2 (chan c' s)"
  by (cases "c' = c") (simp_all add: regulator_set_isetpoint_def Let_def)

lemma set_period_duties:
  "duty1 (chan c' (snd (regulator_set_period c per s))) = duty1 (chan c' s)
   \<and> duty2 (chan c' (snd (regulator_set_period c per s))) = duty2 (chan c' s)"
  by (cases "c' = c") (simp_all add: regulator_set_period_def)

lemma set_ch2_source_chan:
  "chan c' (snd (regulator_set_ch2_source src s)) = chan c' s"
  by (cases c') (simp_all add: regulator_set_ch2_source_def Let_def configure_ch2_chans chan_def)

lemma read_samples_duties:
  "duty1 (chan c (read_samples j1 j2 j3 j4 s)) = duty1 (chan c s)
   \<and> duty2 (chan c (read_samples j1 j2 j3 j4 s)) = duty2 (chan c s)"
  by (cases c) (simp_all add: read_samples_def chan_def)

section \<open>Signed arithmetic on the duties\<close>

lemma sdiv2_int: "(k::int) sdiv 2 = (if 0 \<le> k then k div 2 else - ((- k) div 2))"
  by (simp add: signed_divide_int_def sgn_if)

lemma sint_halve: "sint (halve d) = sint d sdiv 2"
proof -
  have lo: "- (2 ^ 31) \<le> sint d" using sint_ge [of d] by simp
  have hi: "sint d < 2 ^ 31" using sint_lt [of d] by simp
  have "- (2 ^ 31) \<le> sint d sdiv 2 \<and> sint d sdiv 2 < 2 ^ 31"
    using lo hi unfolding sdiv2_int by auto
  then show ?thesis
    by (simp add: halve_def signed_of_int signed_take_bit_int_eq_self)
qed

lemma halve_mono: "a \<le>s b \<Longrightarrow> halve a \<le>s halve b"
  unfolding word_sle_eq sint_halve sdiv2_int by auto

lemma clamp_duties_range:
  "0 \<le>s duty1 (clamp_duties r) \<and> duty1 (clamp_duties r) \<le>s 0xffff
   \<and> 0 \<le>s duty2 (clamp_duties r) \<and> duty2 (clamp_duties r) \<le>s 0xffff"
  by (simp add: clamp_duties_def Let_def word_sless_alt word_sle_eq)

lemma clamp_duties_mono:
  "duty2 r \<le>s duty1 r \<Longrightarrow> duty2 (clamp_duties r) \<le>s duty1 (clamp_duties r)"
  by (simp add: clamp_duties_def Let_def word_sless_alt word_sle_eq)

lemma feedback_error_order:
  "duty2 (regulator_feedback_error r g e) \<le>s duty1 (regulator_feedback_error r g e)"
  by (simp add: regulator_feedback_error_def Let_def word_sless_alt word_sle_eq)

lemma feedback_step_order:
  "duty2 r \<le>s duty1 r \<Longrightarrow> duty2 (feedback_step r) \<le>s duty1 (feedback_step r)"
  unfolding feedback_step_def
  by (intro clamp_duties_mono) (simp add: feedback_error_order halve_mono)

lemma regulator_feedback_order:
  assumes "duty2 (chan c' s) \<le>s duty1 (chan c' s)"
  shows "duty2 (chan c' (state_of (regulator_feedback c s)))
           \<le>s duty1 (chan c' (state_of (regulator_feedback c s)))"
proof (cases "c' = c")
  case True
  with assms show ?thesis
    by (simp add: regulator_feedback_chan feedback_step_order)
next
  case False
  with assms show ?thesis
    by (simp add: regulator_feedback_chan_other)
qed

section \<open>The order of the duties in the reachable states\<close>

lemma boot_order: "duty2 (chan c (boot h)) \<le>s duty1 (chan c (boot h))"
  by (cases c) (simp_all add: boot_def chan_def chan1_init_def chan2_init_def)

lemma set_duty_cycle_order:
  assumes "duty2 (chan c' s) \<le>s duty1 (chan c' s)"
  shows "duty2 (chan c' (snd (regulator_set_duty_cycle c d1 d2 s)))
           \<le>s duty1 (chan c' (snd (regulator_set_duty_cycle c d1 d2 s)))"
proof (cases "c' = c")
  case True
  with assms show ?thesis
    by (simp add: regulator_set_duty_cycle_def configure_func_chan word_sle_eq word_sless_alt)
next
  case False
  with assms show ?thesis
    by (simp add: regulator_set_duty_cycle_def configure_func_chan)
qed

lemma reachable_duty_order: "reachable s \<Longrightarrow> duty2 (chan c s) \<le>s duty1 (chan c s)"
proof (induction arbitrary: c rule: reachable.induct)
  case (reach_boot h)
  show ?case by (rule boot_order)
next
  case (reach_set_mode s c0 m r s')
  then show ?case
    using regulator_set_mode_duties [of c0 m s r s' c] by simp
next
  case (reach_set_duty_cycle s c0 d1 d2)
  then show ?case by (intro set_duty_cycle_order)
next
  case (reach_set_vsetpoint s c0 v)
  then show ?case by (simp add: set_vsetpoint_duties)
next
  case (reach_set_isetpoint s c0 v)
  then show ?case by (simp add: set_isetpoint_duties)
next
  case (reach_set_period s c0 per)
  then show ?case by (simp add: set_period_duties)
next
  case (reach_set_ch2_source s src)
  then show ?case by (simp add: set_ch2_source_chan)
next
  case (reach_read_samples s j1 j2 j3 j4)
  then show ?case by (simp add: read_samples_duties)
next
  case (reach_feedback s c0 s')
  then show ?case
    using regulator_feedback_order [of c s c0] by simp
qed

section \<open>The busy-waits end on hardware that answers\<close>

lemma wait_until_hit:
  "flags h (polls h) = b \<Longrightarrow> wait_until b h = Some (h\<lparr>polls := Suc (polls h)\<rparr>)"
  by (subst wait_until.simps) (simp add: read_flag_def)

lemma wait_until_miss:
  "flags h (polls h) \<noteq> b \<Longrightarrow> wait_until b h = wait_until b (h\<lparr>polls := Suc (polls h)\<rparr>)"
  by (subst wait_until.simps) (simp add: read_flag_def)

lemma wait_until_ends:
  "flags h (polls h + k) = b \<Longrightarrow> \<exists>n. wait_until b h = Some (h\<lparr>polls := n\<rparr>)"
proof (induction k arbitrary: h)
  case 0
  then show ?case by (auto simp: wait_until_hit)
next
  case (Suc k)
  show ?case
  proof (cases "flags h (polls h) = b")
    case True
    then show ?thesis by (auto simp: wait_until_hit)
  next
    case False
    from Suc.prems
    have "flags (h\<lparr>polls := Suc (polls h)\<rparr>) (polls (h\<lparr>polls := Suc (polls h)\<rparr>) + k) = b"
      by simp
    from Suc.IH [OF this] False show ?thesis
      by (auto simp: wait_until_miss)
  qed
qed

lemma wait_until_responsive:
  assumes "responsive h"
  shows "\<exists>n. wait_until b h = Some (h\<lparr>polls := n\<rparr>)"
proof -
  from assms obtain k where "flags h (polls h + k) = b"
    unfolding responsive_def by (cases b) (metis (full_types))+
  then show ?thesis by (rule wait_until_ends)
qed

lemma responsive_emit [simp]: "responsive (emit cs h) = responsive h"
  by (simp add: responsive_def emit_def)

lemma responsive_polls [simp]: "responsive (h\<lparr>polls := n\<rparr>) = responsive h"
  by (simp add: responsive_def)

lemma setup_common_peripherals_returns:
  assumes "responsive (hw s)"
  shows "\<exists>s'. setup_common_peripherals s = Some s' \<and> responsive (hw s')"
proof (cases "mode (chan1 s) = DISABLED \<and> mode (chan2 s) = DISABLED")
  case True
  with assms show ?thesis
    by (simp add: setup_common_peripherals_def read_flag_def)
next
  case False
  define h0 where "h0 = emit [Rcc_osc_on] (hw s)"
  have "responsive h0" using assms by (simp add: h0_def)
  then obtain n1 where w1: "wait_until True h0 = Some (h0\<lparr>polls := n1\<rparr>)"
    using wait_until_responsive [of h0 True] by auto
  define h1 where "h1 = emit [Rcc_peripheral_enable_clock RCC_APB1ENR_TIM7EN,
                       Rcc_peripheral_enable_clock RCC_APB2ENR_ADC1EN,
                       Nvic_enable_irq,
                       Adc Adc_enable_external_trigger_injected,
                       Adc Adc_set_sample_time_on_all_channels,
                       Adc Adc_enable_eoc_interrupt_injected,
                       Adc Adc_set_clk_prescale,
                       Adc Adc_set_injected_sequence,
                       Adc Adc_enable_scan_mode,
                       Adc Adc_power_on] (h0\<lparr>polls := n1\<rparr>)"
  have r1: "responsive h1" using \<open>responsive h0\<close> by (simp add: h1_def)
  then obtain n2 where w2: "wait_until True h1 = Some (h1\<lparr>polls := n2\<rparr>)"
    using wait_until_responsive [of h1 True] by auto
  have "responsive (h1\<lparr>polls := n2\<rparr>)" using r1 by simp
  then obtain n3 where
    w3: "wait_until False (h1\<lparr>polls := n2\<rparr>) = Some (h1\<lparr>polls := n2\<rparr>\<lparr>polls := n3\<rparr>)"
    using wait_until_responsive [of "h1\<lparr>polls := n2\<rparr>" False] by auto
  show ?thesis
    unfolding setup_common_peripherals_def if_not_P [OF False]
    using w1 w2 w3 r1
    by (simp add: h0_def [symmetric] h1_def [symmetric])
qed

lemma setup_returns_hw:
  "responsive h \<Longrightarrow> \<exists>s'. setup_common_peripherals (s\<lparr>hw := h\<rparr>) = Some s'"
  using setup_common_peripherals_returns [of "s\<lparr>hw := h\<rparr>"] by auto

lemma enable_func_returns:
  assumes "responsive (hw s)"
  shows "\<exists>s'. enable_func c s = Some s'"
proof (cases c)
  case Chan1
  have "responsive (emit [Rcc_peripheral_enable_clock RCC_APB1ENR_TIM2EN,
                      Rcc_peripheral_enable_clock RCC_APB1ENR_TIM4EN]
                 (set_vsense1_en True (hw s)))"
    using assms by (simp add: set_vsense1_en_def)
  from setup_returns_hw [OF this] Chan1 show ?thesis
    by (simp add: enable_func_def enable_ch1_def)
next
  case Chan2
  have "responsive (emit [Rcc_peripheral_enable_clock RCC_APB1ENR_TIM3EN] (hw s))"
    using assms by simp
  from setup_returns_hw [OF this] Chan2 show ?thesis
    by (simp add: enable_func_def enable_ch2_def)
qed

lemma disable_func_returns:
  assumes "responsive (hw s)"
  shows "\<exists>s'. disable_func c s = Some s'"
proof (cases c)
  case Chan1
  have "responsive (emit [Timer TIM2 (Disable_oc_output TIM_OC3),
                            Timer TIM4 (Disable_oc_output TIM_OC3),
                            Timer TIM2 Disable_counter,
                            Timer TIM4 Disable_counter,
                            Rcc_peripheral_disable_clock RCC_APB1ENR_TIM2EN,
                            Rcc_peripheral_disable_clock RCC_APB1ENR_TIM4EN] (hw s))"
    using assms by simp
  from setup_returns_hw [OF this, of s] obtain s' where
    "setup_common_peripherals
             (s\<lparr>hw := emit [Timer TIM2 (Disable_oc_output TIM_OC3),
                            Timer TIM4 (Disable_oc_output TIM_OC3),
                            Timer TIM2 Disable_counter,
                            Timer TIM4 Disable_counter,
                            Rcc_peripheral_disable_clock RCC_APB1ENR_TIM2EN,
                            Rcc_peripheral_disable_clock RCC_APB1ENR_TIM4EN] (hw s)\<rparr>) = Some s'"
    by blast
  with Chan1 show ?thesis by (simp add: disable_func_def disable_ch1_def)
next
  case Chan2
  have "responsive (emit [Timer TIM3 (Disable_oc_output TIM_OC1),
                      Timer TIM3 (Disable_oc_output TIM_OC3),
                      Timer TIM3 Disable_counter,
                      Rcc_peripheral_disable_clock RCC_APB1ENR_TIM3EN] (hw s))"
    using assms by simp
  from setup_returns_hw [OF this] Chan2 show ?thesis
    by (simp add: disable_func_def disable_ch2_def)
qed

lemma regulator_set_mode_returns:
  assumes "responsive (hw s)"
  shows "regulator_set_mode c m s \<noteq> None"
proof -
  let ?s1 = "chan_put c ((chan c s)\<lparr>mode := m\<rparr>) s"
  have r: "responsive (hw ?s1)" using assms by simp
  have "\<exists>s2. (if mode (chan c s) = DISABLED \<and> m \<noteq> DISABLED then enable_func c ?s1
          else if m = DISABLED then disable_func c ?s1 else Some ?s1) = Some s2"
    using enable_func_returns [OF r, of c] disable_func_returns [OF r, of c]
    by (cases "m = DISABLED") simp_all
  then obtain s2 where
    s2: "(if mode (chan c s) = DISABLED \<and> m \<noteq> DISABLED then enable_func c ?s1
          else if m = DISABLED then disable_func c ?s1 else Some ?s1) = Some s2" ..
  show ?thesis
    using s2 configure_func_ret [of c s2]
    by (auto simp: regulator_set_mode_def Let_def split: prod.splits)
qed

lemma regulator_set_mode_result:
  assumes "regulator_set_mode c m s = Some (r, s')"
  shows "r = 0 \<and> mode (chan c s') = m"
proof -
  let ?s1 = "chan_put c ((chan c s)\<lparr>mode := m\<rparr>) s"
  from assms obtain s2 where
    s2: "(if mode (chan c s) = DISABLED \<and> m \<noteq> DISABLED then enable_func c ?s1
          else if m = DISABLED then disable_func c ?s1 else Some ?s1) = Some s2"
    by (auto simp: regulator_set_mode_def Let_def split: option.splits)
  have "r = 0"
    using assms s2 configure_func_ret [of c s2]
    by (auto simp: regulator_set_mode_def Let_def split: option.splits if_splits prod.splits)
  moreover have "mode (chan c s') = m"
    using regulator_set_mode_chan [OF assms, of c] by simp
  ultimately show ?thesis by simp
qed

lemma regulator_set_mode_no_recovery:
  "regulator_set_mode c m s =
     map_option (\<lambda>s2. (0, if m \<noteq> DISABLED then snd (configure_func c s2) else s2))
       (if mode (chan c s) = DISABLED \<and> m \<noteq> DISABLED
          then enable_func c (chan_put c ((chan c s)\<lparr>mode := m\<rparr>) s)
        else if m = DISABLED
          then disable_func c (chan_put c ((chan c s)\<lparr>mode := m\<rparr>) s)
        else Some (chan_put c ((chan c s)\<lparr>mode := m\<rparr>) s))"
proof -
  have c: "(case configure_func c s2 of (ret, s3) \<Rightarrow>
              if ret \<noteq> 0 then
                (case disable_func c (chan_put c ((chan c s3)\<lparr>mode := DISABLED\<rparr>) s3) of
                   None \<Rightarrow> None
                 | Some s4 \<Rightarrow> Some (ret, s4))
              else Some (0, s3)) = Some (0, snd (configure_func c s2))" for s2
    using configure_func_ret [of c s2] by (cases "configure_func c s2") simp
  show ?thesis
    unfolding regulator_set_mode_def Let_def c
    by (simp split: option.splits)
qed

section \<open>Tick counts of the PWM synthesizer\<close>

lemma uint_scast_nonneg:
  fixes d :: "32 word"
  assumes "0 \<le> sint d"
  shows "uint (scast d :: 64 word) = sint d"
proof -
  have up: "is_up (scast :: 32 word \<Rightarrow> 64 word)" by (simp add: is_up)
  have s: "sint (scast d :: 64 word) = sint d" by (rule sint_up_scast [OF up])
  have "sint d < 2 ^ 31" using sint_lt [of d] by simp
  then have lt: "sint d < 2 ^ 64" by simp
  have "uint (scast d :: 64 word) = take_bit 64 (sint (scast d :: 64 word))"
    using uint_sint [of "scast d :: 64 word"] by simp
  also have "\<dots> = sint d"
    unfolding s using assms lt by (rule take_bit_int_eq_self)
  finally show ?thesis .
qed

lemma uint_ucast_up: "uint (ucast (p :: 32 word) :: 64 word) = uint p"
  by (rule uint_up_ucast) (simp add: is_up)

lemma ticks_exact:
  fixes d per :: "32 word"
  assumes "0 \<le> sint d" and "sint d * uint per < 2 ^ 48"
  shows "uint (ucast (drop_bit 16 ((scast d :: 64 word) * ucast per)) :: 32 word)
           = (sint d * uint per) div 65536"
proof -
  have prod0: "0 \<le> sint d * uint per" using assms(1) by simp
  have lt64: "sint d * uint per < 2 ^ 64" using assms(2) by simp
  then have prod: "uint ((scast d :: 64 word) * ucast per) = sint d * uint per"
    using prod0
    by (simp add: uint_word_ariths(3) uint_scast_nonneg [OF assms(1)] uint_ucast_up)
  have sh: "uint (drop_bit 16 ((scast d :: 64 word) * ucast per)) = (sint d * uint per) div 65536"
    unfolding unsigned_drop_bit_eq prod
    using prod0 lt64 by (simp add: drop_bit_eq_div take_bit_int_eq_self)
  have "(sint d * uint per) div 65536 < 2 ^ 32"
    using assms(2) by simp
  moreover have "0 \<le> (sint d * uint per) div 65536" using prod0 by simp
  ultimately show ?thesis
    unfolding unsigned_ucast_eq sh by (simp add: take_bit_int_eq_self)
qed

lemma set_pwm_duty_exact:
  assumes "0 \<le> sint d" and "sint d * uint per < 2 ^ 48"
  shows "set_pwm_duty tim oc per d h =
           (if 0xffff < (sint d * uint per) div 65536 then Halted h
            else Done (emit [Timer tim (Set_oc_value oc
                          (word_of_int ((sint d * uint per) div 65536)))] h))"
proof -
  define t :: "32 word" where "t = ucast (drop_bit 16 ((scast d :: 64 word) * ucast per))"
  have u: "uint t = (sint d * uint per) div 65536"
    unfolding t_def by (rule ticks_exact [OF assms])
  have lt: "0xffff < t \<longleftrightarrow> 0xffff < (sint d * uint per) div 65536"
    unfolding u [symmetric] by (simp add: word_less_alt)
  have w: "word_of_int ((sint d * uint per) div 65536) = t"
    unfolding u [symmetric] by simp
  show ?thesis
    unfolding set_pwm_duty_def t_def [symmetric] Let_def lt w ..
qed

lemma set_pwm_duty_cases:
  "set_pwm_duty tim oc per d h = Halted h
   \<or> (\<exists>t. t \<le> 0xffff \<and> set_pwm_duty tim oc per d h = Done (emit [Timer tim (Set_oc_value oc t)] h))"
proof (cases "0xffff < (ucast (drop_bit 16 ((scast d :: 64 word) * ucast per)) :: 32 word)")
  case True
  then show ?thesis by (simp add: set_pwm_duty_def Let_def)
next
  case False
  then have "(ucast (drop_bit 16 ((scast d :: 64 word) * ucast per)) :: 32 word) \<le> 0xffff"
    by (simp add: not_less)
  with False show ?thesis
    unfolding set_pwm_duty_def Let_def by (intro disjI2 exI conjI) simp_all
qed

lemma set_pwm_duty_returns:
  assumes "0 \<le>s d" and "d \<le>s 0xffff" and "per \<le> 0x10000"
  shows "\<exists>t. set_pwm_duty tim oc per d h = Done (emit [Timer tim (Set_oc_value oc t)] h)"
proof -
  have d0: "0 \<le> sint d" and d1: "sint d \<le> 65535"
    using assms(1,2) by (simp_all add: word_sle_eq)
  have p1: "uint per \<le> 65536" using assms(3) by (simp add: word_le_def)
  have p0: "0 \<le> uint per" by simp
  have "sint d * uint per \<le> 65535 * 65536"
    using d0 d1 p0 p1 by (intro mult_mono) simp_all
  then have b: "sint d * uint per < 2 ^ 48" and q: "(sint d * uint per) div 65536 \<le> 0xffff"
    by simp_all
  show ?thesis
    unfolding set_pwm_duty_exact [OF d0 b] using q by (intro exI) simp
qed

section \<open>Further lemmas for the claims\<close>

lemma responsive_alternating: "responsive hw_alternating"
proof -
  have "\<exists>k. even (n + k)" for n :: nat
    by (cases "even n") (auto intro: exI [of _ 0] exI [of _ 1])
  moreover have "\<exists>k. odd (n + k)" for n :: nat
    by (cases "even n") (auto intro: exI [of _ 0] exI [of _ 1])
  ultimately show ?thesis
    by (simp add: responsive_def hw_alternating_def)
qed

lemma configure_func_hw_flags:
  "flags (hw (snd (configure_func c s))) = flags (hw s)"
  by (cases c)
     (simp_all add: configure_func_def configure_ch1_def configure_ch2_def
        configure_dual_pwm_def configure_pwm_def Let_def emit_def)

lemma set_duty_cycle_responsive:
  "responsive (hw s) \<Longrightarrow> responsive (hw (snd (regulator_set_duty_cycle c d1 d2 s)))"
  by (simp add: regulator_set_duty_cycle_def responsive_def configure_func_hw_flags)

lemma reachable_sys_const_duty: "reachable sys_const_duty"
  unfolding sys_const_duty_def
  by (intro reach_set_vsetpoint reach_set_duty_cycle reach_boot)

lemma set_mode_sys_const_duty:
  "regulator_set_mode Chan1 VOLTAGE_FB sys_const_duty =
     Some (fst (the (regulator_set_mode Chan1 VOLTAGE_FB sys_const_duty)),
           snd (the (regulator_set_mode Chan1 VOLTAGE_FB sys_const_duty)))"
proof -
  have "responsive (hw (boot hw_alternating))"
    by (simp add: boot_def responsive_alternating)
  then have "responsive (hw sys_const_duty)"
    unfolding sys_const_duty_def
    by (simp add: regulator_set_vsetpoint_def Let_def set_duty_cycle_responsive)
  then have "regulator_set_mode Chan1 VOLTAGE_FB sys_const_duty \<noteq> None"
    by (rule regulator_set_mode_returns)
  then show ?thesis by auto
qed

lemma reachable_sys_voltage_fb: "reachable sys_voltage_fb"
  unfolding sys_voltage_fb_def
  by (intro reach_read_samples reach_set_mode [OF reachable_sys_const_duty set_mode_sys_const_duty])

lemma mode_sys_voltage_fb: "mode (chan Chan1 sys_voltage_fb) = VOLTAGE_FB"
  using regulator_set_mode_result [OF set_mode_sys_const_duty]
  by (simp add: sys_voltage_fb_def read_samples_def chan_def)

lemma clamp_duties_sint:
  "sint (duty1 (clamp_duties r)) = max 0 (min 0xffff (sint (duty1 r)))
   \<and> sint (duty2 (clamp_duties r)) = max 0 (min 0xffff (sint (duty2 r)))"
  by (simp add: clamp_duties_def Let_def word_sless_alt)

lemma feedback_step_range:
  "0 \<le>s duty1 (feedback_step r) \<and> duty1 (feedback_step r) \<le>s 0xffff
   \<and> 0 \<le>s duty2 (feedback_step r) \<and> duty2 (feedback_step r) \<le>s 0xffff"
  unfolding feedback_step_def by (rule clamp_duties_range)

lemma clamp_duties_period [simp]: "period (clamp_duties r) = period r"
  by (simp add: clamp_duties_def Let_def)

lemma feedback_error_period [simp]: "period (regulator_feedback_error r g e) = period r"
  by (simp add: regulator_feedback_error_def Let_def)

lemma feedback_step_period [simp]: "period (feedback_step r) = period r"
  by (simp add: feedback_step_def)

lemma update_duty_func_returns:
  assumes "0 \<le>s duty1 (chan c s)" and "duty1 (chan c s) \<le>s 0xffff"
    and "0 \<le>s duty2 (chan c s)" and "duty2 (chan c s) \<le>s 0xffff"
    and "period (chan c s) \<le> 0x10000"
  shows "\<exists>s'. update_duty_func c s = Done s'"
proof (cases c)
  case Chan1
  let ?h0 = "emit [Timer TIM2 Disable_counter] (hw s)"
  from assms Chan1 obtain t1 where
    t1: "set_pwm_duty TIM2 TIM_OC3 (period (chan1 s)) (duty1 (chan1 s)) ?h0
           = Done (emit [Timer TIM2 (Set_oc_value TIM_OC3 t1)] ?h0)"
    using set_pwm_duty_returns [of "duty1 (chan1 s)" "period (chan1 s)" TIM2 TIM_OC3 ?h0]
    by (auto simp: chan_def)
  from assms Chan1 obtain t2 where
    t2: "set_pwm_duty TIM4 TIM_OC3 (period (chan1 s)) (duty2 (chan1 s))
             (emit [Timer TIM2 (Set_oc_value TIM_OC3 t1)] ?h0)
           = Done (emit [Timer TIM4 (Set_oc_value TIM_OC3 t2)]
                     (emit [Timer TIM2 (Set_oc_value TIM_OC3 t1)] ?h0))"
    using set_pwm_duty_returns [of "duty2 (chan1 s)" "period (chan1 s)" TIM4 TIM_OC3
        "emit [Timer TIM2 (Set_oc_value TIM_OC3 t1)] ?h0"]
    by (auto simp: chan_def)
  show ?thesis
    using Chan1 t1 t2 by (simp add: update_duty_func_def update_duty_ch1_def)
next
  case Chan2
  from assms Chan2 obtain t1 where
    "set_pwm_duty TIM3 (ch2_oc s) (period (chan2 s)) (duty1 (chan2 s)) (hw s)
           = Done (emit [Timer TIM3 (Set_oc_value (ch2_oc s) t1)] (hw s))"
    using set_pwm_duty_returns [of "duty1 (chan2 s)" "period (chan2 s)" TIM3 "ch2_oc s" "hw s"]
    by (auto simp: chan_def)
  then show ?thesis
    using Chan2 by (simp add: update_duty_func_def update_duty_ch2_def)
qed

lemma regulator_feedback_returns:
  assumes "period (chan c s) \<le> 0x10000"
  shows "\<exists>s'. regulator_feedback c s = Done s'"
proof (cases "mode (chan c s) = DISABLED \<or> mode (chan c s) = CONST_DUTY")
  case True
  then show ?thesis by (auto simp: regulator_feedback_def)
next
  case False
  let ?s1 = "chan_put c (feedback_step (chan c s)) s"
  have "\<exists>s'. update_duty_func c ?s1 = Done s'"
    using feedback_step_range [of "chan c s"] assms
    by (intro update_duty_func_returns) simp_all
  with False show ?thesis by (simp add: regulator_feedback_def)
qed

lemma clamp_duties_in_range:
  assumes "0 \<le>s duty1 r" and "duty1 r \<le>s 0xffff" and "0 \<le>s duty2 r" and "duty2 r \<le>s 0xffff"
  shows "clamp_duties r = r"
  using assms by (simp add: clamp_duties_def Let_def word_sle_eq word_sless_alt)

lemma halve_in_range:
  "0 \<le>s d \<Longrightarrow> d \<le>s 0xffff \<Longrightarrow> 0 \<le>s halve d \<and> halve d \<le>s 0xffff"
  unfolding word_sle_eq sint_halve sdiv2_int by auto

lemma fudge_rail: "0xffff - fudge = (63535 :: int32)"
  by (simp add: fudge_def)

lemma near_full_scale_iff:
  "(63535 :: int32) <s d \<longleftrightarrow> 0x10000 - sint d \<le> 2000"
  by (simp add: word_sless_alt) arith

lemma scenario_mixing:
  assumes "duty1 r = 0x8000" and "prop_gain1 g = 0x10000" and "duty2 r \<le>s 2000"
  shows "regulator_feedback_error r g (- 200) = r\<lparr>duty1 := 0x80c8\<rparr>"
proof -
  have a: "\<not> 2000 <s duty2 r" using assms(3) by (simp add: word_sle_eq word_sless_alt)
  have b: "\<not> 0x80c8 <s duty2 r" using assms(3) by (simp add: word_sle_eq word_sless_alt)
  have c: "duty_sub 0x8000 (prop_term (- 200) 0x10000) = 0x80c8"
    by (simp add: duty_sub_def prop_term_def)
  show ?thesis
    using a b
    by (simp add: regulator_feedback_error_def fudge_def Let_def assms(1,2) c word_sless_alt)
qed

lemma uint_codepoint:
  fixes g v :: "32 word"
  shows "uint (ucast (drop_bit 16 (g * v)) :: 16 word) = (uint g * uint v mod 2 ^ 32) div 2 ^ 16"
proof -
  have w: "uint (g * v) = uint g * uint v mod 2 ^ 32"
    by (simp add: uint_word_ariths(3))
  have lt: "uint (g * v) < 2 ^ 32" using uint_lt2p [of "g * v"] by simp
  have d: "uint (drop_bit 16 (g * v)) = uint (g * v) div 2 ^ 16"
    unfolding unsigned_drop_bit_eq using lt
    by (simp add: drop_bit_eq_div take_bit_int_eq_self)
  have "uint (g * v) div 2 ^ 16 < 2 ^ 16" using lt by simp
  moreover have "0 \<le> uint (g * v) div 2 ^ 16"
    by (simp add: pos_imp_zdiv_nonneg_iff)
  ultimately have "uint (ucast (drop_bit 16 (g * v)) :: 16 word) = uint (g * v) div 2 ^ 16"
    unfolding unsigned_ucast_eq d by (simp add: take_bit_int_eq_self)
  then show ?thesis unfolding w .
qed

lemma uint_from_codepoints:
  fixes x :: "16 word" and g :: "32 word"
  shows "uint (push_bit 16 (ucast x :: 32 word) div g) = (uint x * 2 ^ 16) div uint g"
proof -
  have x: "uint x < 2 ^ 16" using uint_lt2p [of x] by simp
  have u: "uint (ucast x :: 32 word) = uint x"
    by (rule uint_up_ucast) (simp add: is_up)
  have "uint x * 2 ^ 16 < 2 ^ 32" using x by simp
  moreover have "0 \<le> uint x * 2 ^ 16" by simp
  ultimately have "uint (push_bit 16 (ucast x :: 32 word)) = uint x * 2 ^ 16"
    unfolding unsigned_push_bit_eq u by (simp add: push_bit_eq_mult take_bit_int_eq_self)
  then show ?thesis by (simp add: uint_div)
qed

lemma round_trip_bounds:
  fixes G V :: int
  assumes "0 < G" and "0 \<le> V"
  shows "((G * V) div 65536 * 65536) div G \<le> V"
    and "G * (V - ((G * V) div 65536 * 65536) div G) < 65536 + G"
proof -
  define X where "X = G * V"
  define Y where "Y = X div 65536 * 65536"
  have yx: "Y = X - X mod 65536"
    unfolding Y_def by (simp add: minus_mod_eq_div_mult)
  have y1: "Y \<le> X" and y2: "X - 65536 < Y"
    unfolding yx using pos_mod_bound [of 65536 X] pos_mod_sign [of 65536 X] by simp_all
  have "Y div G \<le> X div G" using y1 assms(1) by (simp add: zdiv_mono1)
  also have "X div G = V" unfolding X_def using assms(1) by simp
  finally show "((G * V) div 65536 * 65536) div G \<le> V" unfolding Y_def X_def .
  have "Y div G * G = Y - Y mod G" by (simp add: minus_mod_eq_div_mult)
  then have "Y - G < Y div G * G"
    using pos_mod_bound [of G Y] assms(1) by simp
  then have "X - 65536 - G < G * (Y div G)" using y2 by (simp add: mult.commute)
  then show "G * (V - ((G * V) div 65536 * 65536) div G) < 65536 + G"
    unfolding Y_def X_def by (simp add: algebra_simps)
qed

lemma uint_eq_sint:
  fixes v :: "32 word"
  assumes "0 \<le> sint v"
  shows "uint v = sint v"
proof -
  have "sint v < 2 ^ 31" using sint_lt [of v] by simp
  then have "sint v < 2 ^ 32" by simp
  with assms show ?thesis
    using uint_sint [of v] by (simp add: take_bit_int_eq_self)
qed

lemma sint_eq_uint_small:
  fixes g :: "32 word"
  assumes "uint g < 2 ^ 31"
  shows "sint g = uint g"
proof -
  have "(0::int) \<le> uint g" by simp
  moreover have "- (2 ^ 31) \<le> (0::int)" by simp
  ultimately have "- (2 ^ 31) \<le> uint g" by (rule order_trans [rotated])
  with assms show ?thesis
    using sint_uint [of g] by (simp add: signed_take_bit_int_eq_self)
qed

lemma set_vsetpoint_codepoint:
  "regulator_set_vsetpoint c v s =
     (if uint (vlimit (chan c s)) < (uint (vsense_gain (chan c s)) * uint v mod 2 ^ 32) div 2 ^ 16
      then (1, s)
      else (0, chan_put c ((chan c s)\<lparr>vsetpoint :=
                 word_of_int ((uint (vsense_gain (chan c s)) * uint v mod 2 ^ 32) div 2 ^ 16)\<rparr>) s))"
proof -
  define cp :: "16 word" where "cp = ucast (drop_bit 16 (vsense_gain (chan c s) * v))"
  have u: "(uint (vsense_gain (chan c s)) * uint v mod 2 ^ 32) div 2 ^ 16 = uint cp"
    unfolding cp_def by (rule uint_codepoint [symmetric])
  show ?thesis
    unfolding u regulator_set_vsetpoint_def cp_def [symmetric] Let_def
    by (simp add: word_less_alt)
qed

lemma get_vsetpoint_round_trip:
  assumes ok: "fst (regulator_set_vsetpoint c v s) = 0"
    and v0: "0 \<le> sint v"
    and g0: "vsense_gain (chan c s) \<noteq> 0"
    and nowrap: "uint (vsense_gain (chan c s)) * sint v < 2 ^ 32"
  shows "\<exists>g. regulator_get_vsetpoint c (snd (regulator_set_vsetpoint c v s)) = Some g
             \<and> 0 \<le> sint g \<and> sint g \<le> sint v
             \<and> uint (vsense_gain (chan c s)) * (sint v - sint g)
                 < 0x10000 + uint (vsense_gain (chan c s))"
proof -
  define G where "G = uint (vsense_gain (chan c s))"
  define V where "V = sint v"
  define cp :: "16 word" where "cp = ucast (drop_bit 16 (vsense_gain (chan c s) * v))"
  define g :: "32 word" where "g = push_bit 16 (ucast cp :: 32 word) div vsense_gain (chan c s)"
  have Gpos: "0 < G"
    unfolding G_def using g0 by (simp add: word_greater_zero_iff [symmetric] word_less_alt)
  have uv: "uint v = V" unfolding V_def by (rule uint_eq_sint [OF v0])
  have X: "0 \<le> G * V" "G * V < 2 ^ 32"
    using Gpos v0 nowrap by (simp_all add: G_def V_def)
  have cpu: "uint cp = (G * V) div 65536"
    unfolding cp_def uint_codepoint G_def [symmetric] uv using X by simp
  have gu: "uint g = ((G * V) div 65536 * 65536) div G"
    unfolding g_def uint_from_codepoints cpu G_def [symmetric] by simp
  have le: "uint g \<le> V" and near: "G * (V - uint g) < 65536 + G"
    unfolding gu using round_trip_bounds [OF Gpos, of V] v0 by (simp_all add: V_def)
  have "V < 2 ^ 31" unfolding V_def using sint_lt [of v] by simp
  with le have "uint g < 2 ^ 31" by simp
  then have sg: "sint g = uint g" by (rule sint_eq_uint_small)
  have st: "snd (regulator_set_vsetpoint c v s) = chan_put c ((chan c s)\<lparr>vsetpoint := cp\<rparr>) s"
    using ok by (simp add: regulator_set_vsetpoint_def Let_def cp_def split: if_splits)
  have "regulator_get_vsetpoint c (snd (regulator_set_vsetpoint c v s)) = Some g"
    unfolding st using g0 by (simp add: regulator_get_vsetpoint_def from_codepoints_def g_def)
  moreover have "0 \<le> sint g" unfolding sg by simp
  moreover have "sint g \<le> sint v" unfolding sg using le by (simp add: V_def)
  moreover have "uint (vsense_gain (chan c s)) * (sint v - sint g)
                 < 0x10000 + uint (vsense_gain (chan c s))"
    unfolding sg using near by (simp add: V_def G_def)
  ultimately show ?thesis by blast
qed

lemma set_vsetpoint_323:
  "regulator_set_vsetpoint Chan1 323 (boot hw_alternating)
     = (0, (boot hw_alternating)\<lparr>chan1 := chan1_init\<lparr>vsetpoint := 1\<rparr>\<rparr>)"
  by (simp add: regulator_set_vsetpoint_def Let_def chan_def chan_put_def boot_def chan1_init_def)

section \<open>The claims about the feedback controller\<close>

text \<open>
  Claim C1. In every reachable state, and more generally in every state in which
  \<open>duty2 \<le> duty1\<close> holds for a channel, \<open>duty2 \<le> duty1\<close> (as signed values) holds for
  that channel after \<open>regulator_feedback\<close> has run on either channel, whether it
  returns or ends in the fatal halt: in the modes without feedback nothing changes, the
  halving of both duties keeps their order, the mixing algorithm ends by cutting duty2
  down to duty1, and the final clamps keep the order.
\<close>

theorem feedback_keeps_duty_order:
  assumes "reachable s \<or> duty2 (chan c' s) \<le>s duty1 (chan c' s)"
  shows "duty2 (chan c' (state_of (regulator_feedback c s)))
           \<le>s duty1 (chan c' (state_of (regulator_feedback c s)))"
proof -
  from assms have "duty2 (chan c' s) \<le>s duty1 (chan c' s)"
    using reachable_duty_order [of s c'] by blast
  then show ?thesis by (rule regulator_feedback_order)
qed

text \<open>
  The hypothesis of C1 holds in the reachable state \<open>sys_voltage_fb\<close>, which is in
  voltage feedback, and for channel 1 set to \<open>overcurrent_reg\<close>, where the duties are
  halved.
\<close>

theorem feedback_keeps_duty_order_witness:
  "(reachable sys_voltage_fb
      \<or> duty2 (chan Chan1 sys_voltage_fb) \<le>s duty1 (chan Chan1 sys_voltage_fb))
   \<and> mode (chan Chan1 sys_voltage_fb) = VOLTAGE_FB
   \<and> duty2 (chan Chan1 (state_of (regulator_feedback Chan1 sys_voltage_fb)))
        \<le>s duty1 (chan Chan1 (state_of (regulator_feedback Chan1 sys_voltage_fb)))
   \<and> (reachable ((boot hw_alternating)\<lparr>chan1 := overcurrent_reg\<rparr>)
      \<or> duty2 (chan Chan1 ((boot hw_alternating)\<lparr>chan1 := overcurrent_reg\<rparr>))
          \<le>s duty1 (chan Chan1 ((boot hw_alternating)\<lparr>chan1 := overcurrent_reg\<rparr>)))
   \<and> duty2 (chan Chan1 (state_of (regulator_feedback Chan1
          ((boot hw_alternating)\<lparr>chan1 := overcurrent_reg\<rparr>))))
        \<le>s duty1 (chan Chan1 (state_of (regulator_feedback Chan1
          ((boot hw_alternating)\<lparr>chan1 := overcurrent_reg\<rparr>))))"
proof -
  have r: "reachable sys_voltage_fb
      \<or> duty2 (chan Chan1 sys_voltage_fb) \<le>s duty1 (chan Chan1 sys_voltage_fb)"
    using reachable_sys_voltage_fb by simp
  have o: "reachable ((boot hw_alternating)\<lparr>chan1 := overcurrent_reg\<rparr>)
      \<or> duty2 (chan Chan1 ((boot hw_alternating)\<lparr>chan1 := overcurrent_reg\<rparr>))
          \<le>s duty1 (chan Chan1 ((boot hw_alternating)\<lparr>chan1 := overcurrent_reg\<rparr>))"
    by (simp add: chan_def overcurrent_reg_def scenario_reg_def word_sle_eq)
  from feedback_keeps_duty_order [OF r, of Chan1] feedback_keeps_duty_order [OF o, of Chan1]
    r o mode_sys_voltage_fb
  show ?thesis by blast
qed

text \<open>
  Claim C2, as the code has it. When the error is negative and both duties are within
  \<open>fudge = 2000\<close> of full scale \<open>0x10000\<close>, one call of \<open>regulator_feedback_error\<close> sets
  both duties to \<open>0xffff / 2 = 0x7fff\<close> and changes nothing else. The value is one below
  \<open>0x8000\<close>: the code takes \<open>0xffff\<close> as the rail.
\<close>

theorem feedback_error_collapse:
  assumes "error <s 0"
    and "0x10000 - sint (duty1 reg) \<le> 2000"
    and "0x10000 - sint (duty2 reg) \<le> 2000"
  shows "regulator_feedback_error reg gains error = reg\<lparr>duty1 := 0x7fff, duty2 := 0x7fff\<rparr>"
  using assms
  by (simp add: regulator_feedback_error_def fudge_rail near_full_scale_iff)

theorem feedback_error_collapse_witness:
  "(- 200 :: int32) <s 0
   \<and> 0x10000 - sint (duty1 (chan1_init\<lparr>duty1 := 0xffff, duty2 := 0xfff0\<rparr>)) \<le> 2000
   \<and> 0x10000 - sint (duty2 (chan1_init\<lparr>duty1 := 0xffff, duty2 := 0xfff0\<rparr>)) \<le> 2000
   \<and> regulator_feedback_error (chan1_init\<lparr>duty1 := 0xffff, duty2 := 0xfff0\<rparr>)
        default_gains (- 200)
      = chan1_init\<lparr>duty1 := 0x7fff, duty2 := 0x7fff\<rparr>"
  using feedback_error_collapse
    [of "- 200" "chan1_init\<lparr>duty1 := 0xffff, duty2 := 0xfff0\<rparr>" default_gains]
  by (simp add: word_sless_alt)

text \<open>
  Claim C2 as stated fails: with both duties at \<open>0xffff\<close> and error \<open>-1\<close> the duties
  become \<open>0x7fff\<close>, not \<open>0x8000\<close>.
\<close>

theorem feedback_error_collapse_not_0x8000:
  "\<not> ((- 1 :: int32) <s 0
      \<and> 0x10000 - sint (duty1 (chan1_init\<lparr>duty1 := 0xffff, duty2 := 0xffff\<rparr>)) \<le> 2000
      \<and> 0x10000 - sint (duty2 (chan1_init\<lparr>duty1 := 0xffff, duty2 := 0xffff\<rparr>)) \<le> 2000
      \<longrightarrow> duty1 (regulator_feedback_error
            (chan1_init\<lparr>duty1 := 0xffff, duty2 := 0xffff\<rparr>) default_gains (- 1)) = 0x8000
        \<and> duty2 (regulator_feedback_error
            (chan1_init\<lparr>duty1 := 0xffff, duty2 := 0xffff\<rparr>) default_gains (- 1)) = 0x8000)"
  by (simp add: regulator_feedback_error_def fudge_def chan1_init_def word_sless_alt)

text \<open>
  Claim C3, as the code has it. In voltage feedback without overcurrent, with
  \<open>duty1 = 0x8000\<close>, setpoint 2000, sensed voltage 1800 and \<open>prop_gain1 = 0x10000\<close>,
  and with \<open>duty2\<close> not above \<open>fudge = 2000\<close>, one run of \<open>regulator_feedback\<close> makes
  \<open>duty1 = 0x8000 + 200\<close> and leaves \<open>duty2\<close> as it is, except that a negative
  \<open>duty2\<close> is clamped to 0.
\<close>

theorem scenario_duty1_step:
  assumes "mode (chan c s) = VOLTAGE_FB"
    and "duty1 (chan c s) = 0x8000"
    and "vsetpoint (chan c s) = 2000"
    and "vsense (chan c s) = 1800"
    and "prop_gain1 (v_gains (chan c s)) = 0x10000"
    and "isense (chan c s) \<le> ilimit (chan c s)"
    and "duty2 (chan c s) \<le>s 2000"
  shows "duty1 (chan c (state_of (regulator_feedback c s))) = 0x8000 + 200
         \<and> duty2 (chan c (state_of (regulator_feedback c s)))
             = (if duty2 (chan c s) <s 0 then 0 else duty2 (chan c s))"
proof -
  have a: "\<not> ilimit (chan c s) < isense (chan c s)" using assms(6) by simp
  have m: "regulator_feedback_error (chan c s) (v_gains (chan c s)) (- 200)
             = (chan c s)\<lparr>duty1 := 0x80c8\<rparr>"
    using assms(2,5,7) by (rule scenario_mixing)
  have hi: "\<not> 0xffff <s duty2 (chan c s)"
    using assms(7) by (simp add: word_sle_eq word_sless_alt)
  have "feedback_step (chan c s)
          = clamp_duties ((chan c s)\<lparr>duty1 := 0x80c8\<rparr>)"
    unfolding feedback_step_def using a m by (simp add: assms(1,3,4))
  then show ?thesis
    using hi
    by (simp add: regulator_feedback_chan assms(1) clamp_duties_def Let_def word_sless_alt)
qed

text \<open>The hypotheses of C3 as amended hold for the scenario channel with \<open>duty2 = 1000\<close>.\<close>

theorem scenario_duty1_step_witness:
  "mode (chan Chan1 ((boot hw_alternating)\<lparr>chan1 := scenario_reg\<lparr>duty2 := 1000\<rparr>\<rparr>)) = VOLTAGE_FB
   \<and> isense (scenario_reg\<lparr>duty2 := 1000\<rparr>) \<le> ilimit (scenario_reg\<lparr>duty2 := 1000\<rparr>)
   \<and> duty2 (scenario_reg\<lparr>duty2 := 1000\<rparr>) \<le>s 2000
   \<and> duty1 (chan Chan1 (state_of (regulator_feedback Chan1
          ((boot hw_alternating)\<lparr>chan1 := scenario_reg\<lparr>duty2 := 1000\<rparr>\<rparr>)))) = 0x80c8
   \<and> duty2 (chan Chan1 (state_of (regulator_feedback Chan1
          ((boot hw_alternating)\<lparr>chan1 := scenario_reg\<lparr>duty2 := 1000\<rparr>\<rparr>)))) = 1000"
  using scenario_duty1_step
    [of Chan1 "(boot hw_alternating)\<lparr>chan1 := scenario_reg\<lparr>duty2 := 1000\<rparr>\<rparr>"]
  by (simp add: chan_def scenario_reg_def chan1_init_def default_gains_def
      word_sle_eq word_sless_alt)

text \<open>
  Claim C3 as stated fails when \<open>duty2\<close> is above \<open>fudge\<close>: with \<open>duty2 = 0x4000\<close> the
  fourth branch of the mixing algorithm runs, \<open>duty1\<close> stays \<open>0x8000\<close> and \<open>duty2\<close>,
  which does not exceed \<open>duty1\<close>, changes to \<open>0x4000 - 200\<close>.
\<close>

theorem scenario_duty1_unchanged:
  "\<not> (mode (scenario_reg\<lparr>duty2 := 0x4000\<rparr>) = VOLTAGE_FB
      \<and> duty1 (scenario_reg\<lparr>duty2 := 0x4000\<rparr>) = 0x8000
      \<and> vsetpoint (scenario_reg\<lparr>duty2 := 0x4000\<rparr>) = 2000
      \<and> vsense (scenario_reg\<lparr>duty2 := 0x4000\<rparr>) = 1800
      \<and> prop_gain1 (v_gains (scenario_reg\<lparr>duty2 := 0x4000\<rparr>)) = 0x10000
      \<longrightarrow> duty1 (chan Chan1 (state_of (regulator_feedback Chan1
             ((boot hw_alternating)\<lparr>chan1 := scenario_reg\<lparr>duty2 := 0x4000\<rparr>\<rparr>))))
           = 0x8000 + 200
        \<and> (duty2 (chan Chan1 (state_of (regulator_feedback Chan1
             ((boot hw_alternating)\<lparr>chan1 := scenario_reg\<lparr>duty2 := 0x4000\<rparr>\<rparr>))))
             = 0x4000
           \<or> (0x8000 + 200 :: fract32_t) <s 0x4000))"
  unfolding regulator_feedback_chan
  by (simp add: chan_def feedback_step_def clamp_duties_def
      regulator_feedback_error_def fudge_def duty_add_def duty_sub_def prop_term_def Let_def
      scenario_reg_def chan1_init_def default_gains_def word_sless_alt)

text \<open>What the run does at that input.\<close>

lemma scenario_branch4_values:
  "duty1 (chan Chan1 (state_of (regulator_feedback Chan1
             ((boot hw_alternating)\<lparr>chan1 := scenario_reg\<lparr>duty2 := 0x4000\<rparr>\<rparr>)))) = 0x8000
  \<and> duty2 (chan Chan1 (state_of (regulator_feedback Chan1
             ((boot hw_alternating)\<lparr>chan1 := scenario_reg\<lparr>duty2 := 0x4000\<rparr>\<rparr>)))) = 0x3f38"
  unfolding regulator_feedback_chan
  by (simp add: chan_def feedback_step_def clamp_duties_def
      regulator_feedback_error_def fudge_def duty_add_def duty_sub_def prop_term_def Let_def
      scenario_reg_def chan1_init_def default_gains_def word_sless_alt)

text \<open>
  Claim C4. After \<open>regulator_feedback\<close> has run in a mode other than \<open>DISABLED\<close> and
  \<open>CONST_DUTY\<close>, both duties of the channel lie in \<open>[0, 0xffff]\<close>, hence in
  \<open>[0, 0x10000]\<close>; the clamps take a negative duty to 0 and a duty above \<open>0xffff\<close> to
  \<open>0xffff\<close>.
\<close>

theorem feedback_clamps_duties:
  assumes "mode (chan c s) \<noteq> DISABLED" and "mode (chan c s) \<noteq> CONST_DUTY"
  shows "0 \<le> sint (duty1 (chan c (state_of (regulator_feedback c s))))
         \<and> sint (duty1 (chan c (state_of (regulator_feedback c s)))) \<le> 0xffff
         \<and> 0 \<le> sint (duty2 (chan c (state_of (regulator_feedback c s))))
         \<and> sint (duty2 (chan c (state_of (regulator_feedback c s)))) \<le> 0xffff
         \<and> sint (duty1 (chan c (state_of (regulator_feedback c s)))) \<le> 0x10000
         \<and> sint (duty2 (chan c (state_of (regulator_feedback c s)))) \<le> 0x10000
         \<and> (\<forall>r. sint (duty1 (clamp_duties r)) = max 0 (min 0xffff (sint (duty1 r)))
                \<and> sint (duty2 (clamp_duties r)) = max 0 (min 0xffff (sint (duty2 r))))"
  using assms feedback_step_range [of "chan c s"] clamp_duties_sint
  by (simp add: regulator_feedback_chan word_sle_eq)

text \<open>
  The hypotheses of C4 hold for channel 1 in the reserved mode \<open>MAX_POWER\<close> with
  duties \<open>0x20000\<close> and \<open>-5\<close>, which \<open>regulator_set_duty_cycle\<close> accepts.
\<close>

theorem feedback_clamps_duties_witness:
  "mode (chan Chan1 ((boot hw_alternating)\<lparr>chan1 :=
       chan1_init\<lparr>mode := MAX_POWER, duty1 := 0x20000, duty2 := - 5\<rparr>\<rparr>)) \<noteq> DISABLED
   \<and> mode (chan Chan1 ((boot hw_alternating)\<lparr>chan1 :=
       chan1_init\<lparr>mode := MAX_POWER, duty1 := 0x20000, duty2 := - 5\<rparr>\<rparr>)) \<noteq> CONST_DUTY
   \<and> 0 \<le> sint (duty1 (chan Chan1 (state_of (regulator_feedback Chan1
         ((boot hw_alternating)\<lparr>chan1 :=
            chan1_init\<lparr>mode := MAX_POWER, duty1 := 0x20000, duty2 := - 5\<rparr>\<rparr>)))))
   \<and> sint (duty1 (chan Chan1 (state_of (regulator_feedback Chan1
         ((boot hw_alternating)\<lparr>chan1 :=
            chan1_init\<lparr>mode := MAX_POWER, duty1 := 0x20000, duty2 := - 5\<rparr>\<rparr>))))) \<le> 0xffff
   \<and> 0 \<le> sint (duty2 (chan Chan1 (state_of (regulator_feedback Chan1
         ((boot hw_alternating)\<lparr>chan1 :=
            chan1_init\<lparr>mode := MAX_POWER, duty1 := 0x20000, duty2 := - 5\<rparr>\<rparr>)))))
   \<and> sint (duty2 (chan Chan1 (state_of (regulator_feedback Chan1
         ((boot hw_alternating)\<lparr>chan1 :=
            chan1_init\<lparr>mode := MAX_POWER, duty1 := 0x20000, duty2 := - 5\<rparr>\<rparr>))))) \<le> 0xffff"
proof -
  let ?s = "(boot hw_alternating)\<lparr>chan1 :=
       chan1_init\<lparr>mode := MAX_POWER, duty1 := 0x20000, duty2 := - 5\<rparr>\<rparr>"
  have a: "mode (chan Chan1 ?s) \<noteq> DISABLED" and b: "mode (chan Chan1 ?s) \<noteq> CONST_DUTY"
    by (simp_all add: chan_def)
  from feedback_clamps_duties [OF a b] a b show ?thesis by blast
qed

text \<open>
  Claim C5. In voltage feedback with \<open>isense > ilimit\<close>, and in current feedback with
  \<open>vsense > vlimit\<close>, one run of \<open>regulator_feedback\<close> replaces both duties by their
  halves (C division by 2, rounding towards zero) and then clamps them; the mixing
  algorithm has no part in the result, which depends on neither the error, the setpoints
  nor the gains. For duties in \<open>[0, 0xffff]\<close> the clamps change nothing and the duties
  are exactly halved. The function has no result to report an error in, and with a
  period of at most \<open>0x10000\<close> ticks it returns.
\<close>

theorem overlimit_halves_duties:
  assumes "mode (chan c s) = VOLTAGE_FB \<and> ilimit (chan c s) < isense (chan c s)
           \<or> mode (chan c s) = CURRENT_FB \<and> vlimit (chan c s) < vsense (chan c s)"
  shows "chan c (state_of (regulator_feedback c s))
           = clamp_duties ((chan c s)\<lparr>duty1 := halve (duty1 (chan c s)),
                                      duty2 := halve (duty2 (chan c s))\<rparr>)
         \<and> sint (halve (duty1 (chan c s))) = sint (duty1 (chan c s)) sdiv 2
         \<and> sint (halve (duty2 (chan c s))) = sint (duty2 (chan c s)) sdiv 2
         \<and> (0 \<le>s duty1 (chan c s) \<and> duty1 (chan c s) \<le>s 0xffff
              \<and> 0 \<le>s duty2 (chan c s) \<and> duty2 (chan c s) \<le>s 0xffff
            \<longrightarrow> chan c (state_of (regulator_feedback c s))
                  = (chan c s)\<lparr>duty1 := halve (duty1 (chan c s)),
                              duty2 := halve (duty2 (chan c s))\<rparr>)
         \<and> (period (chan c s) \<le> 0x10000 \<longrightarrow> (\<exists>s'. regulator_feedback c s = Done s'))"
proof -
  let ?r = "(chan c s)\<lparr>duty1 := halve (duty1 (chan c s)), duty2 := halve (duty2 (chan c s))\<rparr>"
  have a: "chan c (state_of (regulator_feedback c s)) = clamp_duties ?r"
    using assms by (auto simp: regulator_feedback_chan feedback_step_def)
  have b: "clamp_duties ?r = ?r"
    if "0 \<le>s duty1 (chan c s) \<and> duty1 (chan c s) \<le>s 0xffff
        \<and> 0 \<le>s duty2 (chan c s) \<and> duty2 (chan c s) \<le>s 0xffff"
    using that halve_in_range [of "duty1 (chan c s)"] halve_in_range [of "duty2 (chan c s)"]
    by (intro clamp_duties_in_range) simp_all
  show ?thesis
    using a b regulator_feedback_returns [of c s] by (simp add: sint_halve)
qed

text \<open>The hypothesis of C5 holds for channel 1 set to \<open>overcurrent_reg\<close>.\<close>

theorem overlimit_halves_duties_witness:
  "(mode (chan Chan1 ((boot hw_alternating)\<lparr>chan1 := overcurrent_reg\<rparr>)) = VOLTAGE_FB
      \<and> ilimit (chan Chan1 ((boot hw_alternating)\<lparr>chan1 := overcurrent_reg\<rparr>))
          < isense (chan Chan1 ((boot hw_alternating)\<lparr>chan1 := overcurrent_reg\<rparr>))
    \<or> mode (chan Chan1 ((boot hw_alternating)\<lparr>chan1 := overcurrent_reg\<rparr>)) = CURRENT_FB
      \<and> vlimit (chan Chan1 ((boot hw_alternating)\<lparr>chan1 := overcurrent_reg\<rparr>))
          < vsense (chan Chan1 ((boot hw_alternating)\<lparr>chan1 := overcurrent_reg\<rparr>)))
   \<and> chan Chan1 (state_of (regulator_feedback Chan1
         ((boot hw_alternating)\<lparr>chan1 := overcurrent_reg\<rparr>)))
       = overcurrent_reg\<lparr>duty1 := 0x4000, duty2 := 0x2000\<rparr>"
proof -
  let ?s = "(boot hw_alternating)\<lparr>chan1 := overcurrent_reg\<rparr>"
  have c: "chan Chan1 ?s = overcurrent_reg" by (simp add: chan_def)
  have h: "mode (chan Chan1 ?s) = VOLTAGE_FB \<and> ilimit (chan Chan1 ?s) < isense (chan Chan1 ?s)
    \<or> mode (chan Chan1 ?s) = CURRENT_FB \<and> vlimit (chan Chan1 ?s) < vsense (chan Chan1 ?s)"
    unfolding c by (simp add: overcurrent_reg_def scenario_reg_def)
  have r: "0 \<le>s duty1 (chan Chan1 ?s) \<and> duty1 (chan Chan1 ?s) \<le>s 0xffff
              \<and> 0 \<le>s duty2 (chan Chan1 ?s) \<and> duty2 (chan Chan1 ?s) \<le>s 0xffff"
    unfolding c by (simp add: overcurrent_reg_def scenario_reg_def word_sle_eq)
  have v: "halve (duty1 overcurrent_reg) = 0x4000 \<and> halve (duty2 overcurrent_reg) = 0x2000"
    by (simp add: overcurrent_reg_def scenario_reg_def halve_def sdiv2_int)
  from overlimit_halves_duties [OF h] r
  have "chan Chan1 (state_of (regulator_feedback Chan1 ?s))
          = (chan Chan1 ?s)\<lparr>duty1 := halve (duty1 (chan Chan1 ?s)),
                              duty2 := halve (duty2 (chan Chan1 ?s))\<rparr>"
    by blast
  then show ?thesis using h unfolding c by (simp add: v)
qed

section \<open>The driver calls of a duty-cycle change\<close>

lemma set_duty_cycle_calls:
  assumes "mode (chan c s) = DISABLED \<or> mode (chan c s) = CONST_DUTY"
    and "d2 \<le>s d1"
  shows "calls (hw (snd (regulator_set_duty_cycle c d1 d2 s))) =
           calls (hw s) @
           (case c of
              Chan1 \<Rightarrow>
                [Timer TIM2 Reset,
                 Timer TIM2 Continuous_mode,
                 Timer TIM2 (Set_oc_mode TIM_OC3 TIM_OCM_PWM1),
                 Timer TIM2 (Set_oc_value TIM_OC3
                   (ucast (ucast (drop_bit 16 ((ucast (period (chan1 s)) :: uint64) * scast d1))
                            :: uint16))),
                 Timer TIM2 (Enable_oc_preload TIM_OC3),
                 Timer TIM2 (Enable_oc_output TIM_OC3),
                 Timer TIM2 Set_mode_center_3,
                 Timer TIM2 Enable_preload,
                 Timer TIM2 (Set_period (period (chan1 s))),
                 Timer TIM2 Generate_event_ug,
                 Timer TIM4 Reset,
                 Timer TIM4 Continuous_mode,
                 Timer TIM4 (Set_oc_mode TIM_OC3 TIM_OCM_PWM1),
                 Timer TIM4 (Set_oc_value TIM_OC3
                   (ucast (ucast (drop_bit 16 ((ucast (period (chan1 s)) :: uint64) * scast d2))
                            :: uint16))),
                 Timer TIM4 (Enable_oc_preload TIM_OC3),
                 Timer TIM4 (Enable_oc_output TIM_OC3),
                 Timer TIM4 Set_mode_center_3,
                 Timer TIM4 Enable_preload,
                 Timer TIM4 (Set_period (period (chan1 s))),
                 Timer TIM4 Generate_event_ug,
                 Timer TIM2 (Set_master_mode TIM_CR2_MMS_ENABLE),
                 Timer TIM4 Slave_set_mode_gated,
                 Timer TIM4 (Slave_set_trigger TIM_SMCR_TS_ITR1),
                 Timer TIM2 (Set_period (period (chan1 s) - 0x10)),
                 Timer TIM2 Generate_event_ug,
                 Timer TIM2 (Set_period (period (chan1 s))),
                 Timer TIM4 Enable_counter,
                 Timer TIM2 Enable_counter]
            | Chan2 \<Rightarrow>
                [Timer TIM3 Reset,
                 Timer TIM3 Continuous_mode,
                 Timer TIM3 (Set_oc_mode (ch2_oc s) TIM_OCM_PWM1),
                 Timer TIM3 (Set_oc_value (ch2_oc s)
                   (ucast (ucast ((period (chan2 s) * d1) div 0xffff) :: uint16))),
                 Timer TIM3 (Enable_oc_preload (ch2_oc s)),
                 Timer TIM3 (Enable_oc_output (ch2_oc s)),
                 Timer TIM3 Set_mode_center_3,
                 Timer TIM3 Enable_preload,
                 Timer TIM3 (Set_period (period (chan2 s))),
                 Timer TIM3 Generate_event_ug,
                 Timer TIM3 Enable_counter])"
proof -
  have n: "\<not> d1 <s d2" using assms(2) by (simp add: word_sle_eq word_sless_alt)
  show ?thesis
  proof (cases c)
    case Chan1
    with assms(1) n show ?thesis
      by (auto simp: regulator_set_duty_cycle_def configure_func_def configure_ch1_def
          configure_dual_pwm_def configure_pwm_def emit_def Let_def chan_def chan_put_def)
  next
    case Chan2
    with assms(1) n show ?thesis
      by (auto simp: regulator_set_duty_cycle_def configure_func_def configure_ch2_def
          configure_pwm_def emit_def Let_def chan_def chan_put_def)
  qed
qed

section \<open>The claims about the public interface\<close>

text \<open>
  Claim C6. \<open>regulator_set_duty_cycle\<close> returns 1 when the mode of the channel is
  neither \<open>CONST_DUTY\<close> nor \<open>DISABLED\<close>, and 2 when the mode allows the call but
  \<open>d2 > d1\<close>; in both cases the result is not 0 and the whole state, channels and
  peripherals, is the one before the call.
\<close>

theorem set_duty_cycle_rejects:
  "(mode (chan c s) \<noteq> CONST_DUTY \<and> mode (chan c s) \<noteq> DISABLED
      \<longrightarrow> regulator_set_duty_cycle c d1 d2 s = (1, s))
   \<and> ((mode (chan c s) = CONST_DUTY \<or> mode (chan c s) = DISABLED) \<and> d1 <s d2
      \<longrightarrow> regulator_set_duty_cycle c d1 d2 s = (2, s))
   \<and> (mode (chan c s) \<notin> {DISABLED, CONST_DUTY} \<or> d1 <s d2
      \<longrightarrow> fst (regulator_set_duty_cycle c d1 d2 s) \<noteq> 0
          \<and> snd (regulator_set_duty_cycle c d1 d2 s) = s)"
  by (auto simp: regulator_set_duty_cycle_def)

text \<open>
  Both rejections of C6 occur: channel 1 in voltage feedback, and the disabled channel 2
  with \<open>d2 > d1\<close>.
\<close>

theorem set_duty_cycle_rejects_witness:
  "mode (chan Chan1 ((boot hw_alternating)\<lparr>chan1 := scenario_reg\<rparr>)) \<noteq> CONST_DUTY
   \<and> mode (chan Chan1 ((boot hw_alternating)\<lparr>chan1 := scenario_reg\<rparr>)) \<noteq> DISABLED
   \<and> regulator_set_duty_cycle Chan1 0x8000 0x4000 ((boot hw_alternating)\<lparr>chan1 := scenario_reg\<rparr>)
       = (1, (boot hw_alternating)\<lparr>chan1 := scenario_reg\<rparr>)
   \<and> mode (chan Chan2 (boot hw_alternating)) = DISABLED \<and> (0x4000 :: int32) <s 0x8000
   \<and> regulator_set_duty_cycle Chan2 0x4000 0x8000 (boot hw_alternating)
       = (2, boot hw_alternating)"
  using set_duty_cycle_rejects [of Chan1 "(boot hw_alternating)\<lparr>chan1 := scenario_reg\<rparr>" "0x8000" "0x4000"]
    set_duty_cycle_rejects [of Chan2 "boot hw_alternating" "0x4000" "0x8000"]
  by (simp add: chan_def scenario_reg_def boot_def chan2_init_def word_sless_alt)

text \<open>
  Claim C10. When the mode is \<open>DISABLED\<close> or \<open>CONST_DUTY\<close> and \<open>d2 \<le> d1\<close>,
  \<open>regulator_set_duty_cycle\<close> returns 0 whatever the values are, stores \<open>d1\<close> and \<open>d2\<close>
  in the channel as they are and changes no other field of it. It then reconfigures the
  PWM from them: the driver calls it adds are those of \<open>configure_ch1\<close> or
  \<open>configure_ch2\<close>, in their order, and the compare values they write are computed
  from the new duties with no range check. On channel 1 they are the low 16 bits of
  \<open>(period * d1) >> 16\<close> and of \<open>(period * d2) >> 16\<close>, the duties sign-extended to 64
  bits; on channel 2 the low 16 bits of \<open>(period * d1) / 0xffff\<close> in unsigned 32-bit
  arithmetic.
\<close>

theorem set_duty_cycle_stores_verbatim:
  assumes "mode (chan c s) = DISABLED \<or> mode (chan c s) = CONST_DUTY"
    and "d2 \<le>s d1"
  shows "regulator_set_duty_cycle c d1 d2 s
           = (0, snd (configure_func c (chan_put c ((chan c s)\<lparr>duty1 := d1, duty2 := d2\<rparr>) s)))
         \<and> chan c (snd (regulator_set_duty_cycle c d1 d2 s))
             = (chan c s)\<lparr>duty1 := d1, duty2 := d2\<rparr>
         \<and> regulator_get_duty_cycle_1 c (snd (regulator_set_duty_cycle c d1 d2 s)) = d1
         \<and> regulator_get_duty_cycle_2 c (snd (regulator_set_duty_cycle c d1 d2 s)) = d2
         \<and> calls (hw (snd (regulator_set_duty_cycle c d1 d2 s))) =
               calls (hw s) @
               (case c of
                  Chan1 \<Rightarrow>
                    [Timer TIM2 Reset,
                     Timer TIM2 Continuous_mode,
                     Timer TIM2 (Set_oc_mode TIM_OC3 TIM_OCM_PWM1),
                     Timer TIM2 (Set_oc_value TIM_OC3
                       (ucast (ucast (drop_bit 16 ((ucast (period (chan1 s)) :: uint64) * scast d1))
                                :: uint16))),
                     Timer TIM2 (Enable_oc_preload TIM_OC3),
                     Timer TIM2 (Enable_oc_output TIM_OC3),
                     Timer TIM2 Set_mode_center_3,
                     Timer TIM2 Enable_preload,
                     Timer TIM2 (Set_period (period (chan1 s))),
                     Timer TIM2 Generate_event_ug,
                     Timer TIM4 Reset,
                     Timer TIM4 Continuous_mode,
                     Timer TIM4 (Set_oc_mode TIM_OC3 TIM_OCM_PWM1),
                     Timer TIM4 (Set_oc_value TIM_OC3
                       (ucast (ucast (drop_bit 16 ((ucast (period (chan1 s)) :: uint64) * scast d2))
                                :: uint16))),
                     Timer TIM4 (Enable_oc_preload TIM_OC3),
                     Timer TIM4 (Enable_oc_output TIM_OC3),
                     Timer TIM4 Set_mode_center_3,
                     Timer TIM4 Enable_preload,
                     Timer TIM4 (Set_period (period (chan1 s))),
                     Timer TIM4 Generate_event_ug,
                     Timer TIM2 (Set_master_mode TIM_CR2_MMS_ENABLE),
                     Timer TIM4 Slave_set_mode_gated,
                     Timer TIM4 (Slave_set_trigger TIM_SMCR_TS_ITR1),
                     Timer TIM2 (Set_period (period (chan1 s) - 0x10)),
                     Timer TIM2 Generate_event_ug,
                     Timer TIM2 (Set_period (period (chan1 s))),
                     Timer TIM4 Enable_counter,
                     Timer TIM2 Enable_counter]
                | Chan2 \<Rightarrow>
                    [Timer TIM3 Reset,
                     Timer TIM3 Continuous_mode,
                     Timer TIM3 (Set_oc_mode (ch2_oc s) TIM_OCM_PWM1),
                     Timer TIM3 (Set_oc_value (ch2_oc s)
                       (ucast (ucast ((period (chan2 s) * d1) div 0xffff) :: uint16))),
                     Timer TIM3 (Enable_oc_preload (ch2_oc s)),
                     Timer TIM3 (Enable_oc_output (ch2_oc s)),
                     Timer TIM3 Set_mode_center_3,
                     Timer TIM3 Enable_preload,
                     Timer TIM3 (Set_period (period (chan2 s))),
                     Timer TIM3 Generate_event_ug,
                     Timer TIM3 Enable_counter])"
proof -
  have "\<not> d1 <s d2" using assms(2) by (simp add: word_sle_eq word_sless_alt)
  with assms(1) have
    "regulator_set_duty_cycle c d1 d2 s
           = (0, snd (configure_func c (chan_put c ((chan c s)\<lparr>duty1 := d1, duty2 := d2\<rparr>) s)))
         \<and> chan c (snd (regulator_set_duty_cycle c d1 d2 s))
             = (chan c s)\<lparr>duty1 := d1, duty2 := d2\<rparr>
         \<and> regulator_get_duty_cycle_1 c (snd (regulator_set_duty_cycle c d1 d2 s)) = d1
         \<and> regulator_get_duty_cycle_2 c (snd (regulator_set_duty_cycle c d1 d2 s)) = d2"
    by (auto simp: regulator_set_duty_cycle_def configure_func_chan
        regulator_get_duty_cycle_1_def regulator_get_duty_cycle_2_def)
  with set_duty_cycle_calls [OF assms] show ?thesis by blast
qed

text \<open>
  The hypotheses of C10 hold for the duties \<open>0x20000\<close> and \<open>-5\<close>, both outside
  \<open>[0, 0x10000]\<close>, on the disabled channel 1 with its period of 400 ticks: the compare
  values written are 800 and \<open>0xffff\<close>.
\<close>

theorem set_duty_cycle_stores_verbatim_witness:
  "(mode (chan Chan1 (boot hw_alternating)) = DISABLED
      \<or> mode (chan Chan1 (boot hw_alternating)) = CONST_DUTY)
   \<and> (- 5 :: int32) \<le>s 0x20000
   \<and> fst (regulator_set_duty_cycle Chan1 0x20000 (- 5) (boot hw_alternating)) = 0
   \<and> sint (regulator_get_duty_cycle_1 Chan1
        (snd (regulator_set_duty_cycle Chan1 0x20000 (- 5) (boot hw_alternating)))) = 0x20000
   \<and> sint (regulator_get_duty_cycle_2 Chan1
        (snd (regulator_set_duty_cycle Chan1 0x20000 (- 5) (boot hw_alternating)))) = - 5
   \<and> calls (hw (snd (regulator_set_duty_cycle Chan1 0x20000 (- 5) (boot hw_alternating)))) =
         [Timer TIM2 Reset,
          Timer TIM2 Continuous_mode,
          Timer TIM2 (Set_oc_mode TIM_OC3 TIM_OCM_PWM1),
          Timer TIM2 (Set_oc_value TIM_OC3 800),
          Timer TIM2 (Enable_oc_preload TIM_OC3),
          Timer TIM2 (Enable_oc_output TIM_OC3),
          Timer TIM2 Set_mode_center_3,
          Timer TIM2 Enable_preload,
          Timer TIM2 (Set_period 400),
          Timer TIM2 Generate_event_ug,
          Timer TIM4 Reset,
          Timer TIM4 Continuous_mode,
          Timer TIM4 (Set_oc_mode TIM_OC3 TIM_OCM_PWM1),
          Timer TIM4 (Set_oc_value TIM_OC3 0xffff),
          Timer TIM4 (Enable_oc_preload TIM_OC3),
          Timer TIM4 (Enable_oc_output TIM_OC3),
          Timer TIM4 Set_mode_center_3,
          Timer TIM4 Enable_preload,
          Timer TIM4 (Set_period 400),
          Timer TIM4 Generate_event_ug,
          Timer TIM2 (Set_master_mode TIM_CR2_MMS_ENABLE),
          Timer TIM4 Slave_set_mode_gated,
          Timer TIM4 (Slave_set_trigger TIM_SMCR_TS_ITR1),
          Timer TIM2 (Set_period 384),
          Timer TIM2 Generate_event_ug,
          Timer TIM2 (Set_period 400),
          Timer TIM4 Enable_counter,
          Timer TIM2 Enable_counter]"
proof -
  have m: "mode (chan Chan1 (boot hw_alternating)) = DISABLED
             \<or> mode (chan Chan1 (boot hw_alternating)) = CONST_DUTY"
    by (simp add: chan_def boot_def chan1_init_def)
  have o: "(- 5 :: int32) \<le>s 0x20000" by (simp add: word_sle_eq)
  note t = set_duty_cycle_stores_verbatim [OF m o]
  have a: "fst (regulator_set_duty_cycle Chan1 0x20000 (- 5) (boot hw_alternating)) = 0"
    using t [THEN conjunct1] by simp
  have b: "regulator_get_duty_cycle_1 Chan1
        (snd (regulator_set_duty_cycle Chan1 0x20000 (- 5) (boot hw_alternating))) = 0x20000"
    by (rule t [THEN conjunct2, THEN conjunct2, THEN conjunct1])
  have c: "regulator_get_duty_cycle_2 Chan1
        (snd (regulator_set_duty_cycle Chan1 0x20000 (- 5) (boot hw_alternating))) = - 5"
    by (rule t [THEN conjunct2, THEN conjunct2, THEN conjunct2, THEN conjunct1])
  have p: "period (chan1 (boot hw_alternating)) = 400" "calls (hw (boot hw_alternating)) = []"
    by (simp_all add: boot_def chan1_init_def hw_alternating_def)
  have d: "calls (hw (snd (regulator_set_duty_cycle Chan1 0x20000 (- 5) (boot hw_alternating))))
             = calls (hw (boot hw_alternating)) @
               [Timer TIM2 Reset,
                Timer TIM2 Continuous_mode,
                Timer TIM2 (Set_oc_mode TIM_OC3 TIM_OCM_PWM1),
                Timer TIM2 (Set_oc_value TIM_OC3
                  (ucast (ucast (drop_bit 16
                     ((ucast (period (chan1 (boot hw_alternating))) :: uint64) * scast (0x20000 :: fract32_t)))
                           :: uint16))),
                Timer TIM2 (Enable_oc_preload TIM_OC3),
                Timer TIM2 (Enable_oc_output TIM_OC3),
                Timer TIM2 Set_mode_center_3,
                Timer TIM2 Enable_preload,
                Timer TIM2 (Set_period (period (chan1 (boot hw_alternating)))),
                Timer TIM2 Generate_event_ug,
                Timer TIM4 Reset,
                Timer TIM4 Continuous_mode,
                Timer TIM4 (Set_oc_mode TIM_OC3 TIM_OCM_PWM1),
                Timer TIM4 (Set_oc_value TIM_OC3
                  (ucast (ucast (drop_bit 16
                     ((ucast (period (chan1 (boot hw_alternating))) :: uint64) * scast (- 5 :: fract32_t)))
                           :: uint16))),
                Timer TIM4 (Enable_oc_preload TIM_OC3),
                Timer TIM4 (Enable_oc_output TIM_OC3),
                Timer TIM4 Set_mode_center_3,
                Timer TIM4 Enable_preload,
                Timer TIM4 (Set_period (period (chan1 (boot hw_alternating)))),
                Timer TIM4 Generate_event_ug,
                Timer TIM2 (Set_master_mode TIM_CR2_MMS_ENABLE),
                Timer TIM4 Slave_set_mode_gated,
                Timer TIM4 (Slave_set_trigger TIM_SMCR_TS_ITR1),
                Timer TIM2 (Set_period (period (chan1 (boot hw_alternating)) - 0x10)),
                Timer TIM2 Generate_event_ug,
                Timer TIM2 (Set_period (period (chan1 (boot hw_alternating)))),
                Timer TIM4 Enable_counter,
                Timer TIM2 Enable_counter]"
    using t [THEN conjunct2, THEN conjunct2, THEN conjunct2, THEN conjunct2] by simp
  show ?thesis unfolding b c d p using m o a by simp
qed

text \<open>
  Claim C7, as the code has it. For \<open>0 \<le> v\<close> with \<open>vsense_gain * v < 2^32\<close>,
  \<open>regulator_set_vsetpoint\<close> computes the codepoint \<open>(vsense_gain * v) >> 16\<close>, returns 1
  and leaves the state unchanged when the codepoint exceeds \<open>vlimit\<close>, and stores it and
  returns 0 otherwise. When it succeeds and the gain is not zero,
  \<open>regulator_get_vsetpoint\<close> returns a value \<open>g\<close> with \<open>0 \<le> g \<le> v\<close> and
  \<open>vsense_gain * (v - g) < 0x10000 + vsense_gain\<close>: \<open>g\<close> is within
  \<open>0x10000 / vsense_gain + 1\<close> of \<open>v\<close>.
\<close>

theorem set_vsetpoint_quantised:
  assumes v0: "0 \<le> sint v"
    and nowrap: "uint (vsense_gain (chan c s)) * sint v < 2 ^ 32"
  shows "regulator_set_vsetpoint c v s =
           (if uint (vlimit (chan c s)) < (uint (vsense_gain (chan c s)) * sint v) div 2 ^ 16
            then (1, s)
            else (0, chan_put c ((chan c s)\<lparr>vsetpoint :=
                   word_of_int ((uint (vsense_gain (chan c s)) * sint v) div 2 ^ 16)\<rparr>) s))
         \<and> (vsense_gain (chan c s) \<noteq> 0 \<and> fst (regulator_set_vsetpoint c v s) = 0
            \<longrightarrow> (\<exists>g. regulator_get_vsetpoint c (snd (regulator_set_vsetpoint c v s)) = Some g
                     \<and> 0 \<le> sint g \<and> sint g \<le> sint v
                     \<and> uint (vsense_gain (chan c s)) * (sint v - sint g)
                         < 0x10000 + uint (vsense_gain (chan c s))))"
proof -
  have uv: "uint v = sint v" by (rule uint_eq_sint [OF v0])
  have "0 \<le> uint (vsense_gain (chan c s)) * sint v" using v0 by simp
  then have m: "uint (vsense_gain (chan c s)) * sint v mod 2 ^ 32
                  = uint (vsense_gain (chan c s)) * sint v"
    using nowrap by simp
  show ?thesis
    using set_vsetpoint_codepoint [of c v s] get_vsetpoint_round_trip [OF _ v0 _ nowrap]
    unfolding uv m by blast
qed

text \<open>The hypotheses of C7 as amended hold for \<open>v = 323\<close> on channel 1 after start-up.\<close>

theorem set_vsetpoint_quantised_witness:
  "0 \<le> sint (323 :: fixed32_t)
   \<and> uint (vsense_gain (chan Chan1 (boot hw_alternating))) * sint (323 :: fixed32_t) < 2 ^ 32
   \<and> vsense_gain (chan Chan1 (boot hw_alternating)) \<noteq> 0
   \<and> fst (regulator_set_vsetpoint Chan1 323 (boot hw_alternating)) = 0
   \<and> (\<exists>g. regulator_get_vsetpoint Chan1
              (snd (regulator_set_vsetpoint Chan1 323 (boot hw_alternating))) = Some g
          \<and> 0 \<le> sint g \<and> sint g \<le> sint (323 :: fixed32_t)
          \<and> uint (vsense_gain (chan Chan1 (boot hw_alternating))) * (sint (323 :: fixed32_t) - sint g)
              < 0x10000 + uint (vsense_gain (chan Chan1 (boot hw_alternating))))"
proof -
  have h1: "0 \<le> sint (323 :: fixed32_t)" by simp
  have h2: "uint (vsense_gain (chan Chan1 (boot hw_alternating))) * sint (323 :: fixed32_t)
              < 2 ^ 32"
    by (simp add: chan_def boot_def chan1_init_def)
  have h3: "vsense_gain (chan Chan1 (boot hw_alternating)) \<noteq> 0
     \<and> fst (regulator_set_vsetpoint Chan1 323 (boot hw_alternating)) = 0"
    unfolding set_vsetpoint_323 by (simp add: chan_def boot_def chan1_init_def)
  from set_vsetpoint_quantised [OF h1 h2, THEN conjunct2, rule_format, OF h3] h1 h2 h3
  show ?thesis by blast
qed

text \<open>
  Claim C7 as stated fails. For \<open>v = 323\<close> the call succeeds and the value read back is
  161: the difference 162 is more than \<open>0x10000 / 405\<close>. For \<open>v = 0x1000000\<close> (256.0) the
  32-bit product \<open>405 * v\<close> wraps, the call succeeds and the value read back is
  6172358.
\<close>

theorem get_vsetpoint_off_by_more:
  "fst (regulator_set_vsetpoint Chan1 323 (boot hw_alternating)) = 0
   \<and> regulator_get_vsetpoint Chan1
        (snd (regulator_set_vsetpoint Chan1 323 (boot hw_alternating))) = Some 161
   \<and> \<not> \<bar>sint (323 :: fixed32_t) - sint (161 :: fixed32_t)\<bar>
          * uint (vsense_gain (chan Chan1 (boot hw_alternating))) \<le> 0x10000
   \<and> fst (regulator_set_vsetpoint Chan1 0x1000000 (boot hw_alternating)) = 0
   \<and> regulator_get_vsetpoint Chan1
        (snd (regulator_set_vsetpoint Chan1 0x1000000 (boot hw_alternating))) = Some 6172358
   \<and> \<not> \<bar>sint (0x1000000 :: fixed32_t) - sint (6172358 :: fixed32_t)\<bar>
          * uint (vsense_gain (chan Chan1 (boot hw_alternating))) \<le> 0x10000"
  by (simp add: regulator_set_vsetpoint_def regulator_get_vsetpoint_def from_codepoints_def
      Let_def chan_def chan_put_def boot_def chan1_init_def)

section \<open>The claims about the PWM synthesizer and the mode change\<close>

text \<open>
  Claim C8. For a duty fraction \<open>d\<close> in \<open>[0, 0x10000]\<close> and any period,
  \<open>set_pwm_duty\<close> computes \<open>t = (d * period) >> 16\<close> without loss; it halts, writing
  nothing, when \<open>t > 0xffff\<close>, and otherwise makes the one driver call that writes \<open>t\<close>
  to the compare register. Whatever \<open>d\<close> is, a value that is written is at most
  \<open>0xffff\<close>. With \<open>d = 0x10000\<close> and \<open>period = 0x20000\<close> it halts.
\<close>

theorem set_pwm_duty_faults_on_overflow:
  "(0 \<le> sint d \<and> sint d \<le> 0x10000 \<longrightarrow>
      set_pwm_duty tim oc per d h =
        (if 0xffff < (sint d * uint per) div 2 ^ 16 then Halted h
         else Done (emit [Timer tim (Set_oc_value oc
                 (word_of_int ((sint d * uint per) div 2 ^ 16)))] h)))
   \<and> (set_pwm_duty tim oc per d h = Halted h
        \<or> (\<exists>t. t \<le> 0xffff
              \<and> set_pwm_duty tim oc per d h = Done (emit [Timer tim (Set_oc_value oc t)] h)))
   \<and> set_pwm_duty tim oc 0x20000 0x10000 h = Halted h"
proof -
  have a: "set_pwm_duty tim oc per d h =
        (if 0xffff < (sint d * uint per) div 2 ^ 16 then Halted h
         else Done (emit [Timer tim (Set_oc_value oc
                 (word_of_int ((sint d * uint per) div 2 ^ 16)))] h))"
    if d: "0 \<le> sint d \<and> sint d \<le> 0x10000"
  proof -
    have "uint per \<le> 2 ^ 32 - 1" using uint_lt2p [of per] by simp
    moreover have "0 \<le> uint per" by simp
    ultimately have "sint d * uint per \<le> 0x10000 * (2 ^ 32 - 1)"
      using d by (intro mult_mono) simp_all
    then have "sint d * uint per < 2 ^ 48" by simp
    with d show ?thesis by (simp add: set_pwm_duty_exact)
  qed
  have c: "set_pwm_duty tim oc 0x20000 0x10000 h = Halted h"
    by (simp add: set_pwm_duty_def)
  show ?thesis using a set_pwm_duty_cases [of tim oc per d h] c by blast
qed

text \<open>
  The hypothesis of C8 holds for \<open>d = 0x8000\<close> with period 400, which writes 200, and
  for \<open>d = 0x10000\<close> with period \<open>0x20000\<close>, which halts.
\<close>

theorem set_pwm_duty_faults_on_overflow_witness:
  "0 \<le> sint (0x8000 :: fract32_t) \<and> sint (0x8000 :: fract32_t) \<le> 0x10000
   \<and> set_pwm_duty TIM2 TIM_OC3 400 0x8000 hw_alternating
       = Done (emit [Timer TIM2 (Set_oc_value TIM_OC3 200)] hw_alternating)
   \<and> 0 \<le> sint (0x10000 :: fract32_t) \<and> sint (0x10000 :: fract32_t) \<le> 0x10000
   \<and> set_pwm_duty TIM2 TIM_OC3 0x20000 0x10000 hw_alternating = Halted hw_alternating"
proof -
  have a: "0 \<le> sint (0x8000 :: fract32_t) \<and> sint (0x8000 :: fract32_t) \<le> 0x10000" by simp
  have b: "0 \<le> sint (0x10000 :: fract32_t) \<and> sint (0x10000 :: fract32_t) \<le> 0x10000" by simp
  have "set_pwm_duty TIM2 TIM_OC3 400 0x8000 hw_alternating
       = Done (emit [Timer TIM2 (Set_oc_value TIM_OC3 200)] hw_alternating)"
    using set_pwm_duty_faults_on_overflow [of "0x8000" TIM2 TIM_OC3 400 hw_alternating,
        THEN conjunct1, rule_format, OF a]
    by simp
  moreover have "set_pwm_duty TIM2 TIM_OC3 0x20000 0x10000 hw_alternating = Halted hw_alternating"
    using set_pwm_duty_faults_on_overflow [of "0x10000" TIM2 TIM_OC3 "0x20000" hw_alternating,
        THEN conjunct1, rule_format, OF b]
    by simp
  ultimately show ?thesis using a b by simp
qed

text \<open>
  Claim C9. \<open>configure_ch1\<close> and \<open>configure_ch2\<close> return 0 in every state. So
  whenever \<open>regulator_set_mode\<close> returns, it returns 0 and the channel is in the mode
  asked for; the branch that forces the mode back to \<open>DISABLED\<close> and calls
  \<open>disable_func\<close> is never taken: the function is the enable or disable step followed,
  for a mode other than \<open>DISABLED\<close>, by \<open>configure_func\<close>, with result 0. It does
  return when the hardware answers the busy-waits of \<open>setup_common_peripherals\<close>.
\<close>

theorem set_mode_always_zero:
  "fst (configure_ch1 s) = 0 \<and> fst (configure_ch2 s) = 0
   \<and> (\<forall>r s'. regulator_set_mode c m s = Some (r, s') \<longrightarrow> r = 0 \<and> mode (chan c s') = m)
   \<and> regulator_set_mode c m s =
       map_option (\<lambda>s2. (0, if m \<noteq> DISABLED then snd (configure_func c s2) else s2))
         (if mode (chan c s) = DISABLED \<and> m \<noteq> DISABLED
            then enable_func c (chan_put c ((chan c s)\<lparr>mode := m\<rparr>) s)
          else if m = DISABLED
            then disable_func c (chan_put c ((chan c s)\<lparr>mode := m\<rparr>) s)
          else Some (chan_put c ((chan c s)\<lparr>mode := m\<rparr>) s))
   \<and> (responsive (hw s) \<longrightarrow> regulator_set_mode c m s \<noteq> None)"
proof (intro conjI allI impI)
  show "fst (configure_ch1 s) = 0"
    using configure_func_ret [of Chan1 s] by (simp add: configure_func_def)
  show "fst (configure_ch2 s) = 0"
    using configure_func_ret [of Chan2 s] by (simp add: configure_func_def)
  show "r = 0" if "regulator_set_mode c m s = Some (r, s')" for r s'
    using regulator_set_mode_result [OF that] by simp
  show "mode (chan c s') = m" if "regulator_set_mode c m s = Some (r, s')" for r s'
    using regulator_set_mode_result [OF that] by simp
  show "regulator_set_mode c m s =
       map_option (\<lambda>s2. (0, if m \<noteq> DISABLED then snd (configure_func c s2) else s2))
         (if mode (chan c s) = DISABLED \<and> m \<noteq> DISABLED
            then enable_func c (chan_put c ((chan c s)\<lparr>mode := m\<rparr>) s)
          else if m = DISABLED
            then disable_func c (chan_put c ((chan c s)\<lparr>mode := m\<rparr>) s)
          else Some (chan_put c ((chan c s)\<lparr>mode := m\<rparr>) s))"
    by (rule regulator_set_mode_no_recovery)
  show "regulator_set_mode c m s \<noteq> None" if "responsive (hw s)"
    using that by (rule regulator_set_mode_returns)
qed

text \<open>The hypothesis of C9 holds after start-up with the peripherals \<open>hw_alternating\<close>.\<close>

theorem set_mode_always_zero_witness:
  "responsive (hw (boot hw_alternating))
   \<and> regulator_set_mode Chan1 VOLTAGE_FB (boot hw_alternating) \<noteq> None
   \<and> fst (the (regulator_set_mode Chan1 VOLTAGE_FB (boot hw_alternating))) = 0
   \<and> mode (chan Chan1 (snd (the (regulator_set_mode Chan1 VOLTAGE_FB (boot hw_alternating)))))
       = VOLTAGE_FB"
proof -
  note t = set_mode_always_zero [of "boot hw_alternating" Chan1 VOLTAGE_FB]
  have r: "responsive (hw (boot hw_alternating))"
    by (simp add: boot_def responsive_alternating)
  with t have n: "regulator_set_mode Chan1 VOLTAGE_FB (boot hw_alternating) \<noteq> None"
    by blast
  then have "regulator_set_mode Chan1 VOLTAGE_FB (boot hw_alternating) =
     Some (fst (the (regulator_set_mode Chan1 VOLTAGE_FB (boot hw_alternating))),
           snd (the (regulator_set_mode Chan1 VOLTAGE_FB (boot hw_alternating))))"
    by auto
  with t have "fst (the (regulator_set_mode Chan1 VOLTAGE_FB (boot hw_alternating))) = 0
    \<and> mode (chan Chan1 (snd (the (regulator_set_mode Chan1 VOLTAGE_FB (boot hw_alternating)))))
       = VOLTAGE_FB"
    by blast
  with r n show ?thesis by simp
qed

end
